theory Spec2Isabelle
  imports Main "HOL-Library.Word"
begin

unbundle bit_operations_syntax

section \<open>COLO checkpoint control: data model\<close>

text \<open>
  The development follows the second (complete) revision of the COLO checkpoint code
  (lines 329-1026 of the source) and \<^verbatim>\<open>migration/colo-failover.c\<close>.
  C integers that only carry a return code are \<open>int\<close>; the 64-bit tokens and lengths on
  the wire are \<open>64 word\<close>; bytes are \<open>8 word\<close>.
\<close>

type_synonym byte = "8 word"
type_synonym u64 = "64 word"

subsection \<open>Sync tokens (the anonymous enum, lines 373-408)\<close>

definition COLO_READY :: u64 where "COLO_READY = 0x46"
definition COLO_CHECKPOINT_NEW :: u64 where "COLO_CHECKPOINT_NEW = 0x47"
definition COLO_CHECKPOINT_SUSPENDED :: u64 where "COLO_CHECKPOINT_SUSPENDED = 0x48"
definition COLO_CHECKPOINT_SEND :: u64 where "COLO_CHECKPOINT_SEND = 0x49"
definition COLO_CHECKPOINT_RECEIVED :: u64 where "COLO_CHECKPOINT_RECEIVED = 0x4a"
definition COLO_CHECKPOINT_LOADED :: u64 where "COLO_CHECKPOINT_LOADED = 0x4b"
definition COLO_GUEST_SHUTDOWN :: u64 where "COLO_GUEST_SHUTDOWN = 0x4c"

lemmas token_defs =
  COLO_READY_def COLO_CHECKPOINT_NEW_def COLO_CHECKPOINT_SUSPENDED_def
  COLO_CHECKPOINT_SEND_def COLO_CHECKPOINT_RECEIVED_def COLO_CHECKPOINT_LOADED_def
  COLO_GUEST_SHUTDOWN_def

subsection \<open>Effects on the rest of the hypervisor\<close>

text \<open>
  Calls into the hypervisor that the checkpoint code makes only for their effect are
  recorded, in program order, as events. \<open>Failover_checked b\<close> records one call of
  \<^verbatim>\<open>failover_request_is_set()\<close> and the value it returned.
\<close>

datatype colo_mode = COLO_PRIMARY_MODE | COLO_SECONDARY_MODE

datatype event =
    Iothread_lock
  | Iothread_unlock
  | Vm_stop_force_state
  | Vm_start
  | Savevm_state_begin
  | Savevm_state_complete
  | Proxy_init colo_mode
  | Proxy_destroy colo_mode
  | Proxy_checkpoint
  | Proxy_compare
  | Proxy_failover
  | Error_report string
  | Error_unexpected_state u64 u64
  | Usleep int
  | Shutdown_request_core
  | System_reset_silent
  | Loadvm_state
  | Failover_checked bool
  | Bh_schedule_cleanup
  | Thread_join
  | Thread_create_colo
  | Ram_cache_create
  | Ram_cache_release
  | Loadvm_exit_colo
  | Coroutine_enter_incoming
  | Qsb_free
  | Qemu_fclose string

text \<open>
  How a call ends: it returns a value, it ends the process (\<^verbatim>\<open>exit(n)\<close>), or it never
  returns (an endless loop).
\<close>

datatype 'a outcome = Returns 'a | Exits int | Hangs

subsection \<open>The byte-stream file\<close>

text \<open>
  Modelled from the spec: \<^verbatim>\<open>QEMUFile\<close> and its operations (\<^verbatim>\<open>qemu_put_be64\<close>,
  \<^verbatim>\<open>qemu_get_be64\<close>, \<^verbatim>\<open>qemu_fflush\<close>, \<^verbatim>\<open>qemu_file_get_error\<close>) are declared outside
  the checkpoint source. The spec gives: a byte stream carrying 8-byte big-endian values,
  written values are flushed to the wire, and a failed read or write leaves a negative
  error on the file. \<open>rd\<close> is what the peer sends and this handle has not consumed yet,
  \<open>pending\<close> what was written and not flushed, \<open>wr\<close> what reached the wire, \<open>wcap\<close> how
  many bytes the transport still accepts (\<open>None\<close>: no limit), \<open>errno\<close> the first
  error recorded (0: none); \<^verbatim>\<open>qemu_file_get_error\<close> returns it negated, so the error of
  a file is never positive.
\<close>

record QEMUFile =
  rd :: "byte list"
  pending :: "byte list"
  wr :: "byte list"
  wcap :: "nat option"
  errno :: nat

definition EIO :: nat where "EIO = 5"

definition be64 :: "u64 \<Rightarrow> byte list" where
  "be64 v = map (\<lambda>i. ucast (drop_bit (8 * i) v)) [7, 6, 5, 4, 3, 2, 1, 0]"

definition be64_decode :: "byte list \<Rightarrow> u64" where
  "be64_decode bs = foldl (\<lambda>acc b. push_bit 8 acc OR ucast b) 0 bs"

definition qemu_file_get_error :: "QEMUFile \<Rightarrow> int" where
  "qemu_file_get_error f = - int (errno f)"

definition qemu_file_set_error :: "QEMUFile \<Rightarrow> nat \<Rightarrow> QEMUFile" where
  "qemu_file_set_error f e = (if errno f = 0 then f\<lparr>errno := e\<rparr> else f)"

text \<open>A read past the end of the stream yields zero bytes and records \<open>EIO\<close>.\<close>

definition qemu_get_be64 :: "QEMUFile \<Rightarrow> u64 \<times> QEMUFile" where
  "qemu_get_be64 f =
     (let bs = take 8 (rd f);
          v = be64_decode (bs @ replicate (8 - length bs) 0);
          f1 = f\<lparr>rd := drop 8 (rd f)\<rparr>
      in (v, if length bs < 8 then qemu_file_set_error f1 EIO else f1))"

definition qemu_put_buffer :: "QEMUFile \<Rightarrow> byte list \<Rightarrow> QEMUFile" where
  "qemu_put_buffer f bs = (if errno f \<noteq> 0 then f else f\<lparr>pending := pending f @ bs\<rparr>)"

definition qemu_put_be64 :: "QEMUFile \<Rightarrow> u64 \<Rightarrow> QEMUFile" where
  "qemu_put_be64 f v = qemu_put_buffer f (be64 v)"

definition qemu_fflush :: "QEMUFile \<Rightarrow> QEMUFile" where
  "qemu_fflush f =
     (let n = length (pending f) in
      if n = 0 then f
      else case wcap f of
             None \<Rightarrow> f\<lparr>pending := [], wr := wr f @ pending f\<rparr>
           | Some c \<Rightarrow>
               if n \<le> c then f\<lparr>pending := [], wr := wr f @ pending f, wcap := Some (c - n)\<rparr>
               else qemu_file_set_error (f\<lparr>pending := []\<rparr>) EIO)"

text \<open>A handle with no error, nothing written, whose peer sends \<open>bs\<close> and then closes.\<close>

definition fresh_file :: "byte list \<Rightarrow> QEMUFile" where
  "fresh_file bs = \<lparr>rd = bs, pending = [], wr = [], wcap = None, errno = 0\<rparr>"

subsection \<open>Control helpers (lines 509-555)\<close>

definition colo_ctl_put :: "QEMUFile \<Rightarrow> u64 \<Rightarrow> int \<times> QEMUFile" where
  "colo_ctl_put f request =
     (let f1 = qemu_put_be64 f request;
          f2 = qemu_fflush f1;
          ret = qemu_file_get_error f2
      in (ret, f2))"

text \<open>
  \<^verbatim>\<open>colo_ctl_get_value(f, &value)\<close>: the second argument is what \<^verbatim>\<open>*value\<close> holds at the
  call, the third component of the result what it holds at the return.
\<close>

definition colo_ctl_get_value :: "QEMUFile \<Rightarrow> u64 \<Rightarrow> int \<times> QEMUFile \<times> u64" where
  "colo_ctl_get_value f value =
     (let (temp, f1) = qemu_get_be64 f;
          ret = qemu_file_get_error f1
      in if ret < 0 then (- 1, f1, value) else (0, f1, temp))"

text \<open>
  \<^verbatim>\<open>colo_ctl_get\<close>: its local \<^verbatim>\<open>value\<close> is uninitialised and read only after a
  successful \<^verbatim>\<open>colo_ctl_get_value\<close>, so its initial content (here 0) never shows.
  The result carries the file and the events emitted.
\<close>

definition colo_ctl_get :: "QEMUFile \<Rightarrow> u64 \<Rightarrow> int outcome \<times> QEMUFile \<times> event list" where
  "colo_ctl_get f require =
     (let (ret, f1, value) = colo_ctl_get_value f 0 in
      if ret < 0 then (Returns ret, f1, [])
      else if value \<noteq> require then (Exits 1, f1, [Error_unexpected_state require value])
      else (Returns ret, f1, []))"

text \<open>
  \<^verbatim>\<open>colo_wait_handle_cmd(f, &checkpoint_request)\<close> (lines 813-840); the value returned
  is the pair of the return code and the content of \<^verbatim>\<open>*checkpoint_request\<close>.
\<close>

definition colo_wait_handle_cmd ::
  "QEMUFile \<Rightarrow> int \<Rightarrow> (int \<times> int) outcome \<times> QEMUFile \<times> event list" where
  "colo_wait_handle_cmd f checkpoint_request =
     (let (ret, f1, cmd) = colo_ctl_get_value f 0 in
      if ret < 0 then (Returns (- 1, checkpoint_request), f1, [])
      else if cmd = COLO_CHECKPOINT_NEW then (Returns (0, 1), f1, [])
      else if cmd = COLO_GUEST_SHUTDOWN then
        (Hangs, f1, [Iothread_lock, Shutdown_request_core, Iothread_unlock])
      else (Returns (- 1, checkpoint_request), f1, []))"

section \<open>The checkpoint state\<close>

text \<open>
  Modelled from the spec: the migration status (\<open>ACTIVE \<rightarrow> COLO \<rightarrow> {COMPLETED, FAILED}\<close>) and
  \<^verbatim>\<open>migrate_set_state\<close>, an atomic compare-and-set, are declared outside the checkpoint
  source; so are the run state and \<^verbatim>\<open>vm_start\<close>/\<^verbatim>\<open>vm_stop_force_state\<close>.
\<close>

datatype migration_status =
    MIGRATION_STATUS_ACTIVE
  | MIGRATION_STATUS_COLO
  | MIGRATION_STATUS_COMPLETED
  | MIGRATION_STATUS_FAILED

datatype run_state = RUN_STATE_RUNNING | RUN_STATE_PAUSED | RUN_STATE_COLO

text \<open>
  Modelled from the spec: the deferred-task scheduler (\<^verbatim>\<open>qemu_bh_new\<close>,
  \<^verbatim>\<open>qemu_bh_schedule\<close>, \<^verbatim>\<open>qemu_bh_delete\<close>). A bottom half is an object on a heap
  (a list, the handle is the index) that names its callback and is scheduled or not.
\<close>

datatype bh_callback = Colo_failover_bh | Colo_start_checkpointer | Cleanup_bh

record QEMUBH =
  bh_cb :: bh_callback
  bh_scheduled :: bool
  bh_deleted :: bool

text \<open>
  The globals of the two source files and the objects they point to.
  \<open>mig_file\<close> is \<^verbatim>\<open>*s->file\<close> on the Primary and \<^verbatim>\<open>*colo_in->file\<close> on the Secondary;
  \<open>ctl_file\<close> is the second handle on the same socket (\<^verbatim>\<open>colo_control\<close>, \<^verbatim>\<open>ctl\<close>);
  \<open>colo_buffer\<close> is the content of the checkpoint buffer and \<open>colo_buffer_null\<close> tells
  that the pointer is \<^verbatim>\<open>NULL\<close>; \<open>colo\<close> and \<open>migration_incoming_co\<close> tell that the
  coroutine pointers are set; \<open>colo_mode_now\<close> is what \<^verbatim>\<open>get_colo_mode()\<close> returns;
  \<open>fb_open\<close> tells that the Secondary's local \<^verbatim>\<open>fb\<close> is set; \<open>trace\<close> is the list of
  events so far.
\<close>

record colo_state =
  mig_state :: migration_status
  params_blk :: int
  params_shared :: int
  mig_file :: QEMUFile
  ctl_file :: QEMUFile
  colo_buffer :: "byte list"
  colo_buffer_null :: bool
  colo_checkpoint_period :: int
  colo_shutdown_requested :: int
  failover_request :: bool
  failover_bh :: "nat option"
  bhs :: "QEMUBH list"
  failover_completed :: bool
  vmstate_loading :: bool
  colo :: bool
  colo_bh :: "nat option"
  migration_incoming_co :: bool
  autostart :: bool
  qdev_hotplug :: int
  colo_mode_now :: colo_mode
  runstate :: run_state
  fb_open :: bool
  trace :: "event list"

definition emit :: "event list \<Rightarrow> colo_state \<Rightarrow> colo_state" where
  "emit evs st = st\<lparr>trace := trace st @ evs\<rparr>"

definition migrate_set_state ::
  "colo_state \<Rightarrow> migration_status \<Rightarrow> migration_status \<Rightarrow> colo_state" where
  "migrate_set_state st old_state new_state =
     (if mig_state st = old_state then st\<lparr>mig_state := new_state\<rparr> else st)"

definition vm_start :: "colo_state \<Rightarrow> colo_state" where
  "vm_start st = emit [Vm_start] (st\<lparr>runstate := RUN_STATE_RUNNING\<rparr>)"

definition vm_stop_force_state :: "colo_state \<Rightarrow> colo_state" where
  "vm_stop_force_state st = emit [Vm_stop_force_state] (st\<lparr>runstate := RUN_STATE_COLO\<rparr>)"

definition colo_runstate_is_stopped :: "colo_state \<Rightarrow> bool" where
  "colo_runstate_is_stopped st \<longleftrightarrow>
     runstate st = RUN_STATE_COLO \<or> \<not> runstate st = RUN_STATE_RUNNING"

subsection \<open>The failover flag (\<^verbatim>\<open>migration/colo-failover.c\<close>)\<close>

definition qemu_bh_new :: "bh_callback \<Rightarrow> colo_state \<Rightarrow> nat \<times> colo_state" where
  "qemu_bh_new cb st =
     (length (bhs st),
      st\<lparr>bhs := bhs st @ [\<lparr>bh_cb = cb, bh_scheduled = False, bh_deleted = False\<rparr>]\<rparr>)"

definition qemu_bh_schedule :: "nat \<Rightarrow> colo_state \<Rightarrow> colo_state" where
  "qemu_bh_schedule h st =
     (if h < length (bhs st) \<and> \<not> bh_deleted (bhs st ! h)
      then st\<lparr>bhs := (bhs st)[h := (bhs st ! h)\<lparr>bh_scheduled := True\<rparr>]\<rparr> else st)"

definition qemu_bh_delete :: "nat \<Rightarrow> colo_state \<Rightarrow> colo_state" where
  "qemu_bh_delete h st =
     (if h < length (bhs st)
      then st\<lparr>bhs := (bhs st)[h := (bhs st ! h)\<lparr>bh_scheduled := False, bh_deleted := True\<rparr>]\<rparr>
      else st)"

text \<open>\<^verbatim>\<open>failover_request_set\<close> (lines 28-33 of colo-failover.c).\<close>

definition failover_request_set :: "colo_state \<Rightarrow> colo_state" where
  "failover_request_set st =
     (let st1 = st\<lparr>failover_request := True\<rparr>;
          (h, st2) = qemu_bh_new Colo_failover_bh st1;
          st3 = st2\<lparr>failover_bh := Some h\<rparr>
      in qemu_bh_schedule h st3)"

text \<open>
  Modelled from the spec: \<^verbatim>\<open>failover_request_is_set\<close> (a non-blocking read of the flag)
  and \<^verbatim>\<open>failover_request_clear\<close> are called by the checkpoint code and missing from
  the revision of colo-failover.c at hand.
\<close>

definition failover_request_is_set :: "colo_state \<Rightarrow> bool" where
  "failover_request_is_set st = failover_request st"

definition failover_request_clear :: "colo_state \<Rightarrow> colo_state" where
  "failover_request_clear st = st\<lparr>failover_request := False\<rparr>"

text \<open>The number of bottom halves with callback \<open>cb\<close> that are scheduled.\<close>

definition scheduled_bhs :: "bh_callback \<Rightarrow> colo_state \<Rightarrow> nat" where
  "scheduled_bhs cb st = length (filter (\<lambda>b. bh_cb b = cb \<and> bh_scheduled b) (bhs st))"

section \<open>The Primary\<close>

subsection \<open>One checkpoint transaction (lines 557-661)\<close>

text \<open>
  What the surroundings do during one transaction: whether \<^verbatim>\<open>qemu_bufopen\<close> yields a
  view, whether a failover request is raised while the worker is stopping the VM (the
  case the comment at lines 589-592 names), the bytes the serializer writes in
  \<^verbatim>\<open>qemu_savevm_state_begin\<close> and \<^verbatim>\<open>qemu_savevm_state_complete\<close>, and the result of
  \<^verbatim>\<open>colo_proxy_checkpoint\<close>.
\<close>

record tx_env =
  bufopen_ok :: bool
  failover_during_stop :: bool
  vmstate_begin :: "byte list"
  vmstate_complete :: "byte list"
  proxy_checkpoint_ret :: int

text \<open>Lines 630-660: from the wait for \<^verbatim>\<open>COLO_CHECKPOINT_RECEIVED\<close> to the return.\<close>

definition tx_finish :: "colo_state \<Rightarrow> int outcome \<times> colo_state" where
  "tx_finish st =
     (case colo_ctl_get (ctl_file st) COLO_CHECKPOINT_RECEIVED of
        (Exits n, c, ev) \<Rightarrow> (Exits n, emit ev (st\<lparr>ctl_file := c\<rparr>))
      | (Hangs, c, ev) \<Rightarrow> (Hangs, emit ev (st\<lparr>ctl_file := c\<rparr>))
      | (Returns ret, c, ev) \<Rightarrow>
          let st1 = emit ev (st\<lparr>ctl_file := c\<rparr>) in
          if ret < 0 then (Returns ret, st1)
          else
            (case colo_ctl_get (ctl_file st1) COLO_CHECKPOINT_LOADED of
               (Exits n, c, ev) \<Rightarrow> (Exits n, emit ev (st1\<lparr>ctl_file := c\<rparr>))
             | (Hangs, c, ev) \<Rightarrow> (Hangs, emit ev (st1\<lparr>ctl_file := c\<rparr>))
             | (Returns ret, c, ev) \<Rightarrow>
                 let st2 = emit ev (st1\<lparr>ctl_file := c\<rparr>) in
                 if ret < 0 then (Returns ret, st2)
                 else
                   let st3 =
                         (if colo_shutdown_requested st2 \<noteq> 0 then
                            emit [Shutdown_request_core]
                              (st2\<lparr>mig_file :=
                                     qemu_fflush (snd (colo_ctl_put (mig_file st2) COLO_GUEST_SHUTDOWN)),
                                   colo_shutdown_requested := 0\<rparr>)
                          else st2);
                       st4 = emit [Iothread_unlock] (vm_start (emit [Iothread_lock] st3))
                   in (Returns 0, st4)))"

text \<open>
  The label \<^verbatim>\<open>out\<close> (lines 655-660) when \<^verbatim>\<open>trans\<close> is set: close the view, then
  return what the body produced.
\<close>

definition tx_close_trans :: "int outcome \<times> colo_state \<Rightarrow> int outcome \<times> colo_state" where
  "tx_close_trans r =
     (case r of
        (Returns ret, st) \<Rightarrow> (Returns ret, emit [Qemu_fclose ''trans''] st)
      | (Exits n, st) \<Rightarrow> (Exits n, st)
      | (Hangs, st) \<Rightarrow> (Hangs, st))"

text \<open>
  Lines 598-629: serialise into the buffer, tell the proxy, send \<^verbatim>\<open>COLO_CHECKPOINT_SEND\<close>,
  the length and the buffer. \<^verbatim>\<open>size\<close> is a \<^verbatim>\<open>size_t\<close>, passed as \<^verbatim>\<open>uint64_t\<close>.
\<close>

definition tx_send :: "tx_env \<Rightarrow> colo_state \<Rightarrow> int outcome \<times> colo_state" where
  "tx_send e st =
     (let st1 = emit [Savevm_state_begin, Iothread_lock, Savevm_state_complete, Iothread_unlock]
                  (st\<lparr>params_blk := 0, params_shared := 0,
                      colo_buffer := colo_buffer st @ vmstate_begin e @ vmstate_complete e\<rparr>);
          ret = proxy_checkpoint_ret e;
          st2 = emit [Proxy_checkpoint] st1
      in if ret < 0 then (Returns ret, st2)
         else
           let (ret, f) = colo_ctl_put (mig_file st2) COLO_CHECKPOINT_SEND;
               st3 = st2\<lparr>mig_file := f\<rparr>
           in if ret < 0 then (Returns ret, st3)
              else
                let size = length (colo_buffer st3);
                    (ret, f) = colo_ctl_put (mig_file st3) (of_nat size);
                    st4 = st3\<lparr>mig_file := f\<rparr>
                in if ret < 0 then (Returns ret, st4)
                   else
                     let f = qemu_fflush (qemu_put_buffer (mig_file st4) (take size (colo_buffer st4)));
                         st5 = st4\<lparr>mig_file := f\<rparr>;
                         ret = qemu_file_get_error f
                     in if ret < 0 then (Returns ret, st5) else tx_finish st5)"

text \<open>
  Lines 580-597: the two looks at the failover flag around the stop of the VM. While
  the worker stops the VM another thread may raise the failover request.
\<close>

definition tx_stop_vm :: "tx_env \<Rightarrow> colo_state \<Rightarrow> int outcome \<times> colo_state" where
  "tx_stop_vm e st =
     (let st1 = emit [Failover_checked (failover_request_is_set st)] st in
      if failover_request_is_set st then (Returns (- 1), st1)
      else
        let st2 = emit [Iothread_unlock] (vm_stop_force_state (emit [Iothread_lock] st1));
            st3 = st2\<lparr>failover_request := failover_request st2 \<or> failover_during_stop e\<rparr>;
            st4 = emit [Failover_checked (failover_request_is_set st3)] st3
        in if failover_request_is_set st3 then (Returns (- 1), st4)
           else tx_send e st4)"

definition colo_do_checkpoint_transaction :: "tx_env \<Rightarrow> colo_state \<Rightarrow> int outcome \<times> colo_state" where
  "colo_do_checkpoint_transaction e st =
     (let (ret, f) = colo_ctl_put (mig_file st) COLO_CHECKPOINT_NEW;
          st1 = st\<lparr>mig_file := f\<rparr>
      in if ret < 0 then (Returns ret, st1)
         else
           (case colo_ctl_get (ctl_file st1) COLO_CHECKPOINT_SUSPENDED of
              (Exits n, c, ev) \<Rightarrow> (Exits n, emit ev (st1\<lparr>ctl_file := c\<rparr>))
            | (Hangs, c, ev) \<Rightarrow> (Hangs, emit ev (st1\<lparr>ctl_file := c\<rparr>))
            | (Returns ret, c, ev) \<Rightarrow>
                let st2 = emit ev (st1\<lparr>ctl_file := c\<rparr>) in
                if ret < 0 then (Returns ret, st2)
                else
                  let st3 = st2\<lparr>colo_buffer := []\<rparr> in
                  if \<not> bufopen_ok e then
                    (Returns ret, emit [Error_report ''Open colo buffer for write failed''] st3)
                  else
                    tx_close_trans (tx_stop_vm e st3)))"

subsection \<open>The checkpoint loop (lines 706-746)\<close>

text \<open>
  What one pass through the loop body leads to: the next pass (with the value of the
  loop's local, \<^verbatim>\<open>checkpoint_time\<close> on the Primary), the label \<^verbatim>\<open>out\<close>, the end of the
  process, or a call that never returns. \<open>Out_of_schedule\<close> is the answer of the loop
  functions when the loop is still running after the last scheduled pass.
\<close>

datatype 'a loop_step =
    Next_iteration 'a
  | Goto_out
  | Process_exits int
  | Never_returns
  | Out_of_schedule

definition CHECKPOINT_MIN_PERIOD :: int where "CHECKPOINT_MIN_PERIOD = 100"
definition CHECKPOINT_MAX_PEROID :: int where "CHECKPOINT_MAX_PEROID = 10000"

text \<open>
  What the surroundings do during one pass: the result of \<^verbatim>\<open>colo_proxy_compare\<close>, the
  host clock in milliseconds when the pass reads it (line 720 or 734) and after the
  transaction (line 745), and the transaction's surroundings. The clock values are
  \<^verbatim>\<open>int64_t\<close>; they are far from its bounds and modelled as integers.
\<close>

record iter_env =
  compare_ret :: int
  now_trigger :: int
  now_done :: int
  tx :: tx_env

text \<open>The label \<^verbatim>\<open>do_checkpoint\<close> (lines 740-745).\<close>

definition do_checkpoint :: "iter_env \<Rightarrow> colo_state \<Rightarrow> int loop_step \<times> colo_state" where
  "do_checkpoint e st =
     (case colo_do_checkpoint_transaction (tx e) st of
        (Returns r, st1) \<Rightarrow> if r \<noteq> 0 then (Goto_out, st1) else (Next_iteration (now_done e), st1)
      | (Exits n, st1) \<Rightarrow> (Process_exits n, st1)
      | (Hangs, st1) \<Rightarrow> (Never_returns, st1))"

definition colo_thread_iteration ::
  "iter_env \<Rightarrow> int \<Rightarrow> colo_state \<Rightarrow> int loop_step \<times> colo_state" where
  "colo_thread_iteration e checkpoint_time st =
     (let st1 = emit [Failover_checked (failover_request_is_set st)] st in
      if failover_request_is_set st then (Goto_out, emit [Error_report ''failover request''] st1)
      else
        let proxy_checkpoint_req = compare_ret e;
            st2 = emit [Proxy_compare] st1
        in if proxy_checkpoint_req < 0 then (Goto_out, st2)
           else if proxy_checkpoint_req \<noteq> 0 then
             let current_time = now_trigger e;
                 interval = current_time - checkpoint_time;
                 st3 = (if interval < CHECKPOINT_MIN_PERIOD
                        then emit [Usleep (1000 * (CHECKPOINT_MIN_PERIOD - interval))] st2
                        else st2)
             in do_checkpoint e st3
           else
             let current_time = now_trigger e in
             if current_time - checkpoint_time < colo_checkpoint_period st2
             then (Next_iteration checkpoint_time, emit [Usleep 100000] st2)
             else do_checkpoint e st2)"

fun colo_thread_loop ::
  "iter_env list \<Rightarrow> int \<Rightarrow> colo_state \<Rightarrow> int loop_step \<times> colo_state" where
  "colo_thread_loop [] checkpoint_time st =
     (if mig_state st = MIGRATION_STATUS_COLO then (Out_of_schedule, st) else (Goto_out, st))"
| "colo_thread_loop (e # es) checkpoint_time st =
     (if mig_state st = MIGRATION_STATUS_COLO then
        (case colo_thread_iteration e checkpoint_time st of
           (Next_iteration t, st1) \<Rightarrow> colo_thread_loop es t st1
         | (r, st1) \<Rightarrow> (r, st1))
      else (Goto_out, st))"

subsection \<open>Waiting for the failover to complete\<close>

text \<open>
  \<^verbatim>\<open>while (!failover_completed) ;\<close> (lines 757-759 and 1002-1004). The flag is written by
  another thread; \<open>polls\<close> lists the values that thread gives it between one read of the
  loop and the next. When the flag is still false after the last of them, nothing sets
  it any more and the loop never ends: \<open>None\<close>.
\<close>

fun wait_failover_completed :: "bool list \<Rightarrow> colo_state \<Rightarrow> colo_state option" where
  "wait_failover_completed [] st = (if failover_completed st then Some st else None)"
| "wait_failover_completed (b # polls) st =
     (if failover_completed st then Some st
      else wait_failover_completed polls (st\<lparr>failover_completed := b\<rparr>))"

subsection \<open>The checkpoint thread (lines 663-776)\<close>

record thread_env =
  clock_start :: int
  proxy_init_ret :: int
  fopen_ok :: bool
  qsb_create_ok :: bool
  iterations :: "iter_env list"
  completed_polls :: "bool list"

text \<open>
  The label \<^verbatim>\<open>out\<close> (lines 748-775); \<open>control_open\<close> tells that \<^verbatim>\<open>colo_control\<close> is set,
  \<open>dev_hotplug\<close> is the saved flag.
\<close>

definition colo_thread_out ::
  "bool list \<Rightarrow> bool \<Rightarrow> int \<Rightarrow> colo_state \<Rightarrow> unit outcome \<times> colo_state" where
  "colo_thread_out polls control_open dev_hotplug st =
     (let st1 = emit [Error_report ''colo: some error happens in colo_thread'', Iothread_lock,
                      Failover_checked (failover_request_is_set st)] st;
          st2 = (if \<not> failover_request_is_set st1
                 then failover_request_set
                        (emit [Error_report ''master takeover from checkpoint channel''] st1)
                 else st1);
          st3 = emit [Iothread_unlock] st2
      in case wait_failover_completed polls st3 of
           None \<Rightarrow> (Hangs, st3)
         | Some st4 \<Rightarrow>
             let st5 = failover_request_clear st4;
                 st6 = emit [Qsb_free] (st5\<lparr>colo_buffer := [], colo_buffer_null := True\<rparr>);
                 st7 = (if control_open then emit [Qemu_fclose ''colo_control''] st6 else st6);
                 st8 = emit [Iothread_lock, Bh_schedule_cleanup, Iothread_unlock] st7
             in (Returns (), st8\<lparr>qdev_hotplug := dev_hotplug\<rparr>))"

text \<open>
  The thread's result is \<open>None\<close> when the schedule of passes ends with the loop still
  running, and otherwise how the call ends.
\<close>

definition colo_thread :: "thread_env \<Rightarrow> colo_state \<Rightarrow> unit outcome option \<times> colo_state" where
  "colo_thread e st =
     (let dev_hotplug = qdev_hotplug st;
          checkpoint_time = clock_start e;
          out = (\<lambda>control_open st.
                   case colo_thread_out (completed_polls e) control_open dev_hotplug st of
                     (r, st1) \<Rightarrow> (Some r, st1));
          st1 = emit [Proxy_init COLO_PRIMARY_MODE] st
      in if proxy_init_ret e \<noteq> 0 then
           out False (emit [Error_report ''Init colo proxy error''] st1)
         else if \<not> fopen_ok e then
           out False (emit [Error_report ''Open colo_control failed!''] st1)
         else
           let st2 = st1\<lparr>qdev_hotplug := 0\<rparr> in
           (case colo_ctl_get (ctl_file st2) COLO_READY of
              (Exits n, c, ev) \<Rightarrow> (Some (Exits n), emit ev (st2\<lparr>ctl_file := c\<rparr>))
            | (Hangs, c, ev) \<Rightarrow> (Some Hangs, emit ev (st2\<lparr>ctl_file := c\<rparr>))
            | (Returns ret, c, ev) \<Rightarrow>
                let st3 = emit ev (st2\<lparr>ctl_file := c\<rparr>) in
                if ret < 0 then out True st3
                else if \<not> qsb_create_ok e then
                  out True (emit [Error_report ''Failed to allocate colo buffer!'']
                              (st3\<lparr>colo_buffer_null := True\<rparr>))
                else
                  let st4 = st3\<lparr>colo_buffer := [], colo_buffer_null := False\<rparr>;
                      st5 = emit [Iothread_unlock] (vm_start (emit [Iothread_lock] st4))
                  in (case colo_thread_loop (iterations e) checkpoint_time st5 of
                        (Process_exits n, st6) \<Rightarrow> (Some (Exits n), st6)
                      | (Never_returns, st6) \<Rightarrow> (Some Hangs, st6)
                      | (Out_of_schedule, st6) \<Rightarrow> (None, st6)
                      | (_, st6) \<Rightarrow> out True st6)))"

text \<open>
  \<^verbatim>\<open>colo_start_checkpointer\<close> (lines 778-795), up to the creation of the thread, whose
  body \<^verbatim>\<open>colo_thread\<close> runs from then on; \<^verbatim>\<open>colo_init_checkpointer\<close> (lines 797-801).
\<close>

definition colo_start_checkpointer :: "colo_state \<Rightarrow> colo_state" where
  "colo_start_checkpointer st =
     (let st1 = (case colo_bh st of
                   Some h \<Rightarrow> (qemu_bh_delete h st)\<lparr>colo_bh := None\<rparr>
                 | None \<Rightarrow> st);
          st2 = emit [Iothread_unlock, Thread_join, Iothread_lock] st1;
          st3 = migrate_set_state st2 MIGRATION_STATUS_ACTIVE MIGRATION_STATUS_COLO
      in emit [Thread_create_colo] st3)"

definition colo_init_checkpointer :: "colo_state \<Rightarrow> colo_state" where
  "colo_init_checkpointer st =
     (let (h, st1) = qemu_bh_new Colo_start_checkpointer st;
          st2 = st1\<lparr>colo_bh := Some h\<rparr>
      in qemu_bh_schedule h st2)"

section \<open>The failover actions (lines 441-507)\<close>

text \<open>
  \<^verbatim>\<open>while (vmstate_loading) ;\<close> (lines 452-454), read like the wait for the completed
  failover: \<open>polls\<close> lists the values the loading thread gives the flag.
\<close>

fun wait_vmstate_loading :: "bool list \<Rightarrow> colo_state \<Rightarrow> colo_state option" where
  "wait_vmstate_loading [] st = (if vmstate_loading st then None else Some st)"
| "wait_vmstate_loading (b # polls) st =
     (if vmstate_loading st then wait_vmstate_loading polls (st\<lparr>vmstate_loading := b\<rparr>)
      else Some st)"

record failover_env =
  loading_polls :: "bool list"
  proxy_failover_ret :: int

text \<open>In the message about \<^verbatim>\<open>-S\<close> the character \<open>0x22\<close> is the quotation mark.\<close>

definition slave_do_failover :: "failover_env \<Rightarrow> colo_state \<Rightarrow> unit outcome \<times> colo_state" where
  "slave_do_failover e st =
     (case wait_vmstate_loading (loading_polls e) st of
        None \<Rightarrow> (Hangs, st)
      | Some st1 \<Rightarrow>
          let st2 = emit [Proxy_failover] st1;
              st3 = (if proxy_failover_ret e \<noteq> 0
                     then emit [Error_report ''colo proxy failed to do failover''] st2 else st2);
              st4 = (emit [Proxy_destroy COLO_SECONDARY_MODE] st3)\<lparr>colo := False\<rparr>;
              st5 = (if \<not> autostart st4 then
                       (emit [Error_report
                          ([CHR 0x22] @ ''-S'' @ [CHR 0x22] @
                           '' qemu option will be ignored in colo slave side'')] st4)
                         \<lparr>autostart := True\<rparr>
                     else st4);
              st6 = (if migration_incoming_co st5 then emit [Coroutine_enter_incoming] st5
                     else st5)
          in (Returns (), st6))"

definition master_do_failover :: "colo_state \<Rightarrow> colo_state" where
  "master_do_failover st =
     (let st1 = (if \<not> colo_runstate_is_stopped st then vm_stop_force_state st else st);
          st2 = emit [Proxy_destroy COLO_PRIMARY_MODE] st1;
          st3 = (if mig_state st2 \<noteq> MIGRATION_STATUS_FAILED
                 then migrate_set_state st2 MIGRATION_STATUS_COLO MIGRATION_STATUS_COMPLETED
                 else st2)
      in vm_start st3)"

definition colo_do_failover :: "failover_env \<Rightarrow> colo_state \<Rightarrow> unit outcome \<times> colo_state" where
  "colo_do_failover e st =
     (let st1 = (if \<not> colo_runstate_is_stopped st then vm_stop_force_state st else st) in
      case (if colo_mode_now st1 = COLO_SECONDARY_MODE then slave_do_failover e st1
            else (Returns (), master_do_failover st1)) of
        (Returns u, st2) \<Rightarrow> (Returns (), st2\<lparr>failover_completed := True\<rparr>)
      | (Exits n, st2) \<Rightarrow> (Exits n, st2)
      | (Hangs, st2) \<Rightarrow> (Hangs, st2))"

text \<open>
  \<^verbatim>\<open>colo_failover_bh\<close> (lines 21-26 of colo-failover.c). With \<^verbatim>\<open>failover_bh\<close> unset the
  call dereferences a null pointer: \<open>None\<close>.
\<close>

definition colo_failover_bh :: "colo_state \<Rightarrow> colo_state option" where
  "colo_failover_bh st =
     (case failover_bh st of
        None \<Rightarrow> None
      | Some h \<Rightarrow> Some ((qemu_bh_delete h st)\<lparr>failover_bh := None\<rparr>))"

text \<open>Calling \<^verbatim>\<open>failover_request_set\<close> \<open>n\<close> times in a row.\<close>

fun failover_request_set_times :: "nat \<Rightarrow> colo_state \<Rightarrow> colo_state" where
  "failover_request_set_times 0 st = st"
| "failover_request_set_times (Suc n) st = failover_request_set_times n (failover_request_set st)"

text \<open>
  Running \<^verbatim>\<open>colo_do_failover\<close> once for each element of a list, as long as the calls
  return; the result lists the values of \<^verbatim>\<open>failover_completed\<close> from before the first
  call to after the last.
\<close>

fun colo_do_failover_runs :: "failover_env list \<Rightarrow> colo_state \<Rightarrow> bool list" where
  "colo_do_failover_runs [] st = [failover_completed st]"
| "colo_do_failover_runs (e # es) st =
     failover_completed st #
       (case colo_do_failover e st of
          (Returns u, st1) \<Rightarrow> colo_do_failover_runs es st1
        | _ \<Rightarrow> [])"

text \<open>The number of places where a list of flags goes from false to true.\<close>

fun rising_edges :: "bool list \<Rightarrow> nat" where
  "rising_edges (a # b # bs) = (if \<not> a \<and> b then 1 else 0) + rising_edges (b # bs)"
| "rising_edges _ = 0"

section \<open>The Secondary (lines 808-1026)\<close>

text \<open>
  Modelled from the spec: \<^verbatim>\<open>qsb_fill_buffer\<close>, declared outside the checkpoint source,
  reads up to \<open>sz\<close> bytes from the file into the buffer and returns how many it got.
\<close>

definition qsb_fill_buffer :: "QEMUFile \<Rightarrow> u64 \<Rightarrow> nat \<times> byte list \<times> QEMUFile" where
  "qsb_fill_buffer f sz =
     (let bs = take (unat sz) (rd f);
          f1 = f\<lparr>rd := drop (unat sz) (rd f)\<rparr>
      in (length bs, bs, if length bs < unat sz then qemu_file_set_error f1 EIO else f1))"

text \<open>
  What the surroundings do during one round: whether a failover request is raised while
  the loop waits for a command, the result of \<^verbatim>\<open>colo_proxy_checkpoint\<close>, whether
  \<^verbatim>\<open>qemu_bufopen\<close> yields a view, and the result of \<^verbatim>\<open>qemu_loadvm_state\<close>.
\<close>

record round_env =
  failover_during_wait :: bool
  sec_proxy_checkpoint_ret :: int
  sec_bufopen_ok :: bool
  loadvm_ret :: int

text \<open>Lines 940-977: acknowledge, load the state, acknowledge, resume.\<close>

definition incoming_load :: "round_env \<Rightarrow> colo_state \<Rightarrow> unit loop_step \<times> colo_state" where
  "incoming_load e st =
     (let (ret, c) = colo_ctl_put (ctl_file st) COLO_CHECKPOINT_RECEIVED;
          st1 = st\<lparr>ctl_file := c\<rparr>
      in if ret < 0 then (Goto_out, st1)
         else if \<not> sec_bufopen_ok e then
           (Goto_out, emit [Error_report ''can't open colo buffer for read''] st1)
         else
           let st2 = (emit [Iothread_lock, System_reset_silent] (st1\<lparr>fb_open := True\<rparr>))
                       \<lparr>vmstate_loading := True\<rparr>;
               st3 = emit [Loadvm_state] st2
           in if loadvm_ret e < 0 then
                (Goto_out,
                 emit [Iothread_unlock]
                   ((emit [Error_report ''COLO: loadvm failed''] st3)\<lparr>vmstate_loading := False\<rparr>))
              else
                let st4 = emit [Iothread_unlock] (st3\<lparr>vmstate_loading := False\<rparr>);
                    (ret, c) = colo_ctl_put (ctl_file st4) COLO_CHECKPOINT_LOADED;
                    st5 = st4\<lparr>ctl_file := c\<rparr>
                in if ret < 0 then (Goto_out, st5)
                   else
                     (Next_iteration (),
                      (emit [Qemu_fclose ''fb'']
                         (emit [Iothread_unlock] (vm_start (emit [Iothread_lock] st5))))
                        \<lparr>fb_open := False\<rparr>))"

text \<open>
  Lines 921-939: expect \<^verbatim>\<open>COLO_CHECKPOINT_SEND\<close>, read the length, fill the buffer.
  \<^verbatim>\<open>ret\<close> is an \<^verbatim>\<open>int\<close>: it keeps the low 32 bits of the count, and the comparison with
  the \<^verbatim>\<open>uint64_t\<close> length converts it back with its sign.
\<close>

definition incoming_receive :: "round_env \<Rightarrow> colo_state \<Rightarrow> unit loop_step \<times> colo_state" where
  "incoming_receive e st =
     (case colo_ctl_get (mig_file st) COLO_CHECKPOINT_SEND of
        (Exits n, f, ev) \<Rightarrow> (Process_exits n, emit ev (st\<lparr>mig_file := f\<rparr>))
      | (Hangs, f, ev) \<Rightarrow> (Never_returns, emit ev (st\<lparr>mig_file := f\<rparr>))
      | (Returns ret, f, ev) \<Rightarrow>
          let st1 = emit ev (st\<lparr>mig_file := f\<rparr>) in
          if ret < 0 then (Goto_out, st1)
          else
            let (ret, f, total_size) = colo_ctl_get_value (mig_file st1) 0;
                st2 = st1\<lparr>mig_file := f\<rparr>
            in if ret < 0 then (Goto_out, st2)
               else
                 let (n, bs, f) = qsb_fill_buffer (mig_file st2) total_size;
                     st3 = st2\<lparr>mig_file := f, colo_buffer := bs\<rparr>;
                     ret = (of_nat n :: 32 word)
                 in if (scast ret :: u64) \<noteq> total_size then
                      (Goto_out, emit [Error_report ''can't get all migration data''] st3)
                    else incoming_load e st3)"

text \<open>One pass through the loop body (lines 889-978).\<close>

definition colo_incoming_round :: "round_env \<Rightarrow> colo_state \<Rightarrow> unit loop_step \<times> colo_state" where
  "colo_incoming_round e st =
     (case colo_wait_handle_cmd (mig_file st) 0 of
        (Exits n, f, ev) \<Rightarrow> (Process_exits n, emit ev (st\<lparr>mig_file := f\<rparr>))
      | (Hangs, f, ev) \<Rightarrow> (Never_returns, emit ev (st\<lparr>mig_file := f\<rparr>))
      | (Returns (ret, request), f, ev) \<Rightarrow>
          let st1 = (emit ev (st\<lparr>mig_file := f\<rparr>))
                      \<lparr>failover_request := failover_request st \<or> failover_during_wait e\<rparr>
          in if ret < 0 then (Goto_out, st1)
             else if request = 0 then (Next_iteration (), st1)
             else
               let st2 = emit [Failover_checked (failover_request_is_set st1)] st1 in
               if failover_request_is_set st1
               then (Goto_out, emit [Error_report ''failover request''] st2)
               else
                 let st3 = emit [Iothread_unlock]
                             (vm_stop_force_state (emit [Iothread_lock] st2));
                     (ret, c) = colo_ctl_put (ctl_file st3) COLO_CHECKPOINT_SUSPENDED;
                     st4 = st3\<lparr>ctl_file := c\<rparr>
                 in if ret < 0 then (Goto_out, st4)
                    else
                      let st5 = emit [Proxy_checkpoint] st4 in
                      if sec_proxy_checkpoint_ret e < 0 then (Goto_out, st5)
                      else incoming_receive e st5)"

fun colo_incoming_loop :: "round_env list \<Rightarrow> colo_state \<Rightarrow> unit loop_step \<times> colo_state" where
  "colo_incoming_loop [] st = (Out_of_schedule, st)"
| "colo_incoming_loop (e # es) st =
     (case colo_incoming_round e st of
        (Next_iteration u, st1) \<Rightarrow> colo_incoming_loop es st1
      | (r, st1) \<Rightarrow> (r, st1))"

text \<open>
  The label \<^verbatim>\<open>out\<close> (lines 980-1025). \<open>failover_during_sleep\<close> tells that a failover
  request is raised during the two seconds' sleep; \<open>ctl_open\<close> that \<^verbatim>\<open>ctl\<close> is set.
\<close>

record exit_env =
  failover_during_sleep :: bool
  exit_polls :: "bool list"

text \<open>Lines 1008-1025: the release of the loop's resources.\<close>

definition colo_incoming_release :: "bool \<Rightarrow> int \<Rightarrow> colo_state \<Rightarrow> colo_state" where
  "colo_incoming_release ctl_open dev_hotplug st =
     (let st1 = st\<lparr>colo := False\<rparr>;
          st2 = (if fb_open st1 then emit [Qemu_fclose ''fb''] st1 else st1);
          st3 = emit [Ram_cache_release] st2;
          st4 = (if ctl_open then emit [Qemu_fclose ''ctl''] st3 else st3);
          st5 = emit [Qsb_free, Loadvm_exit_colo] st4
      in st5\<lparr>qdev_hotplug := dev_hotplug\<rparr>)"

definition colo_incoming_out ::
  "exit_env \<Rightarrow> bool \<Rightarrow> int \<Rightarrow> colo_state \<Rightarrow> unit outcome \<times> colo_state" where
  "colo_incoming_out e ctl_open dev_hotplug st =
     (let st1 = emit [Error_report ''Detect some error or get a failover request'',
                      Failover_checked (failover_request_is_set st)] st;
          st2 = (if \<not> failover_request_is_set st1 then
                   (emit [Usleep (2000 * 1000)] st1)
                     \<lparr>failover_request := failover_request st1 \<or> failover_during_sleep e\<rparr>
                 else st1);
          st3 = emit [Failover_checked (failover_request_is_set st2)] st2
      in if \<not> failover_request_is_set st2 then
           (Exits 1,
            emit [Error_report ''SVM is going to exit!'', Proxy_destroy COLO_SECONDARY_MODE] st3)
         else
           (case wait_failover_completed (exit_polls e) st3 of
              None \<Rightarrow> (Hangs, st3)
            | Some st4 \<Rightarrow>
                (Returns (),
                 colo_incoming_release ctl_open dev_hotplug (failover_request_clear st4))))"

record incoming_env =
  sec_proxy_init_ret :: int
  sec_fopen_ok :: bool
  sec_qsb_create_ok :: bool
  rounds :: "round_env list"
  at_exit :: exit_env

text \<open>
  \<^verbatim>\<open>colo_process_incoming_checkpoints\<close> (lines 842-1026); the result is \<open>None\<close> when the
  schedule of rounds ends with the loop still running.
\<close>

definition colo_process_incoming_checkpoints ::
  "incoming_env \<Rightarrow> colo_state \<Rightarrow> unit outcome option \<times> colo_state" where
  "colo_process_incoming_checkpoints e st =
     (let dev_hotplug = qdev_hotplug st;
          out = (\<lambda>ctl_open st.
                   case colo_incoming_out (at_exit e) ctl_open dev_hotplug st of
                     (r, st1) \<Rightarrow> (Some r, st1));
          st1 = emit [Proxy_init COLO_SECONDARY_MODE] (st\<lparr>qdev_hotplug := 0, colo := True\<rparr>)
      in if sec_proxy_init_ret e \<noteq> 0 then
           out False (emit [Error_report (''Init colo proxy error'' @ [CHR 0x0A])] st1)
         else if \<not> sec_fopen_ok e then
           out False (emit [Error_report ''Can't open incoming channel!''] st1)
         else
           let st2 = emit [Ram_cache_create] st1 in
           if \<not> sec_qsb_create_ok e then
             out True (emit [Error_report ''Failed to allocate colo buffer!'']
                         (st2\<lparr>colo_buffer_null := True\<rparr>))
           else
             let st3 = st2\<lparr>colo_buffer := [], colo_buffer_null := False\<rparr>;
                 (ret, c) = colo_ctl_put (ctl_file st3) COLO_READY;
                 st4 = st3\<lparr>ctl_file := c\<rparr>
             in if ret < 0 then out True st4
                else
                  let st5 = emit [Iothread_unlock] (vm_start (emit [Iothread_lock] st4)) in
                  (case colo_incoming_loop (rounds e) st5 of
                     (Process_exits n, st6) \<Rightarrow> (Some (Exits n), st6)
                   | (Never_returns, st6) \<Rightarrow> (Some Hangs, st6)
                   | (Out_of_schedule, st6) \<Rightarrow> (None, st6)
                   | (_, st6) \<Rightarrow> out True st6))"

section \<open>The wire as the specification draws it\<close>

text \<open>
  The handshake diagram of the specification, written as bytes: what the Primary sends in
  one round (the payload carried and whether the guest's shutdown is announced), and what
  the Secondary sends in one round.
\<close>

definition primary_round_tokens :: "byte list \<Rightarrow> bool \<Rightarrow> byte list" where
  "primary_round_tokens payload shutdown =
     be64 COLO_CHECKPOINT_NEW @ be64 COLO_CHECKPOINT_SEND @ be64 (of_nat (length payload)) @
     payload @ (if shutdown then be64 COLO_GUEST_SHUTDOWN else [])"

definition secondary_round_tokens :: "byte list" where
  "secondary_round_tokens =
     be64 COLO_CHECKPOINT_SUSPENDED @ be64 COLO_CHECKPOINT_RECEIVED @ be64 COLO_CHECKPOINT_LOADED"

text \<open>
  Several rounds in a row. The guest's shutdown can be announced in the first of them
  only: the round that announces it resets the request. On the control channel the
  Primary expects, per round, \<^verbatim>\<open>COLO_CHECKPOINT_SUSPENDED\<close>, \<^verbatim>\<open>COLO_CHECKPOINT_RECEIVED\<close>
  and \<^verbatim>\<open>COLO_CHECKPOINT_LOADED\<close>.
\<close>

fun primary_rounds :: "bool \<Rightarrow> byte list list \<Rightarrow> byte list" where
  "primary_rounds shutdown [] = []"
| "primary_rounds shutdown (p # ps) = primary_round_tokens p shutdown @ primary_rounds False ps"

fun control_rounds :: "nat \<Rightarrow> byte list \<Rightarrow> bool" where
  "control_rounds 0 bs = True"
| "control_rounds (Suc n) bs =
     (24 \<le> length bs \<and>
      be64_decode (take 8 bs) = COLO_CHECKPOINT_SUSPENDED \<and>
      be64_decode (take 8 (drop 8 bs)) = COLO_CHECKPOINT_RECEIVED \<and>
      be64_decode (take 8 (drop 16 bs)) = COLO_CHECKPOINT_LOADED \<and>
      control_rounds n (drop 24 bs))"

text \<open>
  The passes of a schedule in which, by the pacing rules of the specification, a
  checkpoint is due: the proxy asks for one, or the period has gone by since the last
  checkpoint.
\<close>

fun checkpoint_passes :: "int \<Rightarrow> int \<Rightarrow> iter_env list \<Rightarrow> iter_env list" where
  "checkpoint_passes period t [] = []"
| "checkpoint_passes period t (e # es) =
     (if compare_ret e \<noteq> 0 \<or> period \<le> now_trigger e - t
      then e # checkpoint_passes period (now_done e) es
      else checkpoint_passes period t es)"

section \<open>Concrete states and surroundings\<close>

text \<open>
  The globals as the source initialises them, the hypervisor running, on a socket whose
  peer sends \<open>mig\<close> to the migration file and \<open>ctl\<close> to the second handle.
\<close>

definition initial_state :: "byte list \<Rightarrow> byte list \<Rightarrow> colo_state" where
  "initial_state mig ctl =
     \<lparr>mig_state = MIGRATION_STATUS_ACTIVE, params_blk = 1, params_shared = 1,
      mig_file = fresh_file mig, ctl_file = fresh_file ctl,
      colo_buffer = [], colo_buffer_null = True,
      colo_checkpoint_period = CHECKPOINT_MAX_PEROID, colo_shutdown_requested = 0,
      failover_request = False, failover_bh = None, bhs = [],
      failover_completed = False, vmstate_loading = False, colo = False, colo_bh = None,
      migration_incoming_co = True, autostart = True, qdev_hotplug = 1,
      colo_mode_now = COLO_PRIMARY_MODE, runstate = RUN_STATE_RUNNING, fb_open = False,
      trace = []\<rparr>"

text \<open>Surroundings in which nothing fails; the serializer writes three bytes.\<close>

definition calm_tx :: tx_env where
  "calm_tx = \<lparr>bufopen_ok = True, failover_during_stop = False, vmstate_begin = [1, 2],
              vmstate_complete = [3], proxy_checkpoint_ret = 0\<rparr>"

text \<open>A pass of the Primary's loop 30 ms after the last checkpoint, nothing to do.\<close>

definition calm_iter :: iter_env where
  "calm_iter = \<lparr>compare_ret = 0, now_trigger = 30, now_done = 40, tx = calm_tx\<rparr>"

text \<open>The end of the Secondary's loop with no failover request during the sleep.\<close>

definition calm_exit :: exit_env where
  "calm_exit = \<lparr>failover_during_sleep = False, exit_polls = [False, True]\<rparr>"

text \<open>A failover action whose surroundings do not fail; a checkpoint thread likewise.\<close>

definition calm_failover :: failover_env where
  "calm_failover = \<lparr>loading_polls = [], proxy_failover_ret = 0\<rparr>"

definition calm_thread :: thread_env where
  "calm_thread = \<lparr>clock_start = 0, proxy_init_ret = 0, fopen_ok = True, qsb_create_ok = True,
                  iterations = [], completed_polls = [True]\<rparr>"

text \<open>A round of the Secondary, and a session of one round, in which nothing fails.\<close>

definition calm_round :: round_env where
  "calm_round = \<lparr>failover_during_wait = False, sec_proxy_checkpoint_ret = 0,
                 sec_bufopen_ok = True, loadvm_ret = 0\<rparr>"

definition calm_incoming :: incoming_env where
  "calm_incoming = \<lparr>sec_proxy_init_ret = 0, sec_fopen_ok = True, sec_qsb_create_ok = True,
                    rounds = [calm_round], at_exit = calm_exit\<rparr>"

section \<open>Properties\<close>

subsection \<open>The codec\<close>

text \<open>Decoding undoes encoding.\<close>

lemma be64_decode_be64: "be64_decode (be64 v) = v"
proof (rule bit_word_eqI)
  fix n assume "n < LENGTH(64)"
  then have "n < 64" by simp
  then consider "n < 8" | "8 \<le> n \<and> n < 16" | "16 \<le> n \<and> n < 24" | "24 \<le> n \<and> n < 32"
    | "32 \<le> n \<and> n < 40" | "40 \<le> n \<and> n < 48" | "48 \<le> n \<and> n < 56" | "56 \<le> n \<and> n < 64"
    by linarith
  then show "bit (be64_decode (be64 v)) n = bit v n"
    by cases (simp_all add: be64_def be64_decode_def bit_simps, auto)
qed

text \<open>
  C9. \<^verbatim>\<open>colo_ctl_get_value\<close>: when the channel reports an error after the read (its
  error is negative) the call returns -1 and the caller's value is what it was; otherwise
  the stream held 8 more bytes, the call returns 0 and the value is their big-endian
  value.
\<close>

theorem colo_ctl_get_value_result:
  "(qemu_file_get_error (snd (qemu_get_be64 f)) < 0 \<longrightarrow>
      colo_ctl_get_value f value = (- 1, snd (qemu_get_be64 f), value)) \<and>
   (\<not> qemu_file_get_error (snd (qemu_get_be64 f)) < 0 \<longrightarrow>
      8 \<le> length (rd f) \<and>
      colo_ctl_get_value f value = (0, snd (qemu_get_be64 f), be64_decode (take 8 (rd f))))"
  by (auto simp add: colo_ctl_get_value_def qemu_get_be64_def qemu_file_get_error_def
      qemu_file_set_error_def EIO_def Let_def)

lemmas codec_defs =
  fresh_file_def be64_def be64_decode_def qemu_file_get_error_def qemu_file_set_error_def
  qemu_get_be64_def qemu_put_buffer_def qemu_put_be64_def qemu_fflush_def EIO_def
  colo_ctl_put_def colo_ctl_get_value_def colo_ctl_get_def colo_wait_handle_cmd_def

theorem colo_ctl_get_value_result_witness:
  "colo_ctl_get_value (fresh_file [0, 0, 0, 0, 0, 0, 1, 2]) 7 = (0, fresh_file [], 258) \<and>
   colo_ctl_get_value (fresh_file [1, 2, 3]) 7 = (- 1, (fresh_file [])\<lparr>errno := 5\<rparr>, 7)"
  using colo_ctl_get_value_result [of "fresh_file [0, 0, 0, 0, 0, 0, 1, 2]" 7]
    colo_ctl_get_value_result [of "fresh_file [1, 2, 3]" 7]
  by (simp add: codec_defs Let_def)

text \<open>
  C4. \<^verbatim>\<open>colo_ctl_get\<close>: when the read fails (the channel's error is negative after it)
  the call returns the read's error result, -1; when the read succeeds and the value
  equals the required token it returns 0; when the value differs it reports the expected
  and the received value and ends the process with \<^verbatim>\<open>exit(1)\<close>, so it does not return.
\<close>

theorem colo_ctl_get_result:
  assumes "qemu_get_be64 f = (v, f1)"
  shows "(qemu_file_get_error f1 < 0 \<longrightarrow>
            colo_ctl_get f require = (Returns (fst (colo_ctl_get_value f 0)), f1, []) \<and>
            fst (colo_ctl_get_value f 0) = - 1) \<and>
         (\<not> qemu_file_get_error f1 < 0 \<and> v = require \<longrightarrow>
            colo_ctl_get f require = (Returns 0, f1, [])) \<and>
         (\<not> qemu_file_get_error f1 < 0 \<and> v \<noteq> require \<longrightarrow>
            colo_ctl_get f require = (Exits 1, f1, [Error_unexpected_state require v]))"
  using assms by (simp add: colo_ctl_get_def colo_ctl_get_value_def Let_def)

theorem colo_ctl_get_result_witness:
  "colo_ctl_get (fresh_file [9]) COLO_READY =
     (Returns (- 1), (fresh_file [])\<lparr>errno := 5\<rparr>, []) \<and>
   colo_ctl_get (fresh_file (be64 COLO_READY)) COLO_READY = (Returns 0, fresh_file [], []) \<and>
   colo_ctl_get (fresh_file (be64 COLO_CHECKPOINT_LOADED)) COLO_CHECKPOINT_SUSPENDED =
     (Exits 1, fresh_file [],
      [Error_unexpected_state COLO_CHECKPOINT_SUSPENDED COLO_CHECKPOINT_LOADED])"
proof -
  have a: "qemu_get_be64 (fresh_file [9]) =
             (0x0900000000000000, (fresh_file [])\<lparr>errno := 5\<rparr>)"
    by code_simp
  have b: "qemu_get_be64 (fresh_file (be64 COLO_READY)) = (COLO_READY, fresh_file [])"
    by (simp add: codec_defs token_defs Let_def)
  have c: "qemu_get_be64 (fresh_file (be64 COLO_CHECKPOINT_LOADED)) =
             (COLO_CHECKPOINT_LOADED, fresh_file [])"
    by (simp add: codec_defs token_defs Let_def)
  show ?thesis
    using colo_ctl_get_result [OF a, of COLO_READY] colo_ctl_get_result [OF b, of COLO_READY]
      colo_ctl_get_result [OF c, of COLO_CHECKPOINT_SUSPENDED]
    by (simp add: fresh_file_def qemu_file_get_error_def token_defs)
qed

text \<open>
  C10. \<^verbatim>\<open>colo_wait_handle_cmd\<close>: it returns 0 exactly when the read succeeds with the
  token \<^verbatim>\<open>COLO_CHECKPOINT_NEW\<close>, and then \<^verbatim>\<open>*checkpoint_request\<close> is 1; on a read
  error, and on any token other than \<^verbatim>\<open>COLO_CHECKPOINT_NEW\<close> and
  \<^verbatim>\<open>COLO_GUEST_SHUTDOWN\<close>, it returns -1 (it returns: the process is not ended) and
  leaves \<^verbatim>\<open>*checkpoint_request\<close> alone; on \<^verbatim>\<open>COLO_GUEST_SHUTDOWN\<close> it requests the
  shutdown between taking and releasing the iothread lock and then never returns.
\<close>

theorem colo_wait_handle_cmd_result:
  assumes "qemu_get_be64 f = (cmd, f1)"
  shows "((\<exists>r g ev. colo_wait_handle_cmd f req = (Returns (0, r), g, ev)) \<longleftrightarrow>
            \<not> qemu_file_get_error f1 < 0 \<and> cmd = COLO_CHECKPOINT_NEW) \<and>
         (\<not> qemu_file_get_error f1 < 0 \<and> cmd = COLO_CHECKPOINT_NEW \<longrightarrow>
            colo_wait_handle_cmd f req = (Returns (0, 1), f1, [])) \<and>
         (qemu_file_get_error f1 < 0 \<or>
            (cmd \<noteq> COLO_CHECKPOINT_NEW \<and> cmd \<noteq> COLO_GUEST_SHUTDOWN) \<longrightarrow>
            colo_wait_handle_cmd f req = (Returns (- 1, req), f1, [])) \<and>
         (\<not> qemu_file_get_error f1 < 0 \<and> cmd = COLO_GUEST_SHUTDOWN \<longrightarrow>
            colo_wait_handle_cmd f req =
              (Hangs, f1, [Iothread_lock, Shutdown_request_core, Iothread_unlock]))"
  using assms
  by (auto simp add: colo_wait_handle_cmd_def colo_ctl_get_value_def Let_def token_defs)

theorem colo_wait_handle_cmd_result_witness:
  "colo_wait_handle_cmd (fresh_file (be64 COLO_CHECKPOINT_NEW)) 0 =
     (Returns (0, 1), fresh_file [], []) \<and>
   colo_wait_handle_cmd (fresh_file (be64 COLO_CHECKPOINT_SEND)) 0 =
     (Returns (- 1, 0), fresh_file [], []) \<and>
   colo_wait_handle_cmd (fresh_file [9]) 0 =
     (Returns (- 1, 0), (fresh_file [])\<lparr>errno := 5\<rparr>, []) \<and>
   colo_wait_handle_cmd (fresh_file (be64 COLO_GUEST_SHUTDOWN)) 0 =
     (Hangs, fresh_file [], [Iothread_lock, Shutdown_request_core, Iothread_unlock])"
proof -
  have a: "qemu_get_be64 (fresh_file (be64 COLO_CHECKPOINT_NEW)) =
             (COLO_CHECKPOINT_NEW, fresh_file [])"
    by (simp add: codec_defs token_defs Let_def)
  have b: "qemu_get_be64 (fresh_file (be64 COLO_CHECKPOINT_SEND)) =
             (COLO_CHECKPOINT_SEND, fresh_file [])"
    by (simp add: codec_defs token_defs Let_def)
  have c: "qemu_get_be64 (fresh_file [9]) =
             (0x0900000000000000, (fresh_file [])\<lparr>errno := 5\<rparr>)"
    by code_simp
  have d: "qemu_get_be64 (fresh_file (be64 COLO_GUEST_SHUTDOWN)) =
             (COLO_GUEST_SHUTDOWN, fresh_file [])"
    by (simp add: codec_defs token_defs Let_def)
  show ?thesis
    using colo_wait_handle_cmd_result [OF a, of 0] colo_wait_handle_cmd_result [OF b, of 0]
      colo_wait_handle_cmd_result [OF c, of 0] colo_wait_handle_cmd_result [OF d, of 0]
    by (simp add: fresh_file_def qemu_file_get_error_def token_defs)
qed

subsection \<open>The Primary's transaction\<close>

lemma length_be64 [simp]: "length (be64 v) = 8"
  by (simp add: be64_def)

lemma be64_not_Nil [simp]: "be64 v \<noteq> []"
  by (simp add: be64_def)

lemma colo_ctl_put_ok:
  assumes "colo_ctl_put f v = (ret, g)" and "\<not> ret < 0"
  shows "ret = 0 \<and> wr g = wr f @ pending f @ be64 v \<and> pending g = [] \<and> rd g = rd f \<and> errno g = 0"
  using assms
  by (auto simp add: colo_ctl_put_def qemu_put_be64_def qemu_put_buffer_def qemu_fflush_def
      qemu_file_get_error_def qemu_file_set_error_def Let_def EIO_def
      split: if_splits option.splits)

lemma colo_ctl_get_ok:
  assumes "colo_ctl_get f t = (Returns ret, g, ev)" and "\<not> ret < 0"
  shows "ret = 0 \<and> ev = [] \<and> 8 \<le> length (rd f) \<and> be64_decode (take 8 (rd f)) = t \<and>
         rd g = drop 8 (rd f) \<and> wr g = wr f \<and> pending g = pending f \<and> errno g = 0"
  using assms
  by (auto simp add: colo_ctl_get_def colo_ctl_get_value_def qemu_get_be64_def
      qemu_file_get_error_def qemu_file_set_error_def Let_def EIO_def split: if_splits)


lemma put_shutdown_pending:
  assumes "pending f = []"
  shows "pending (qemu_fflush (snd (colo_ctl_put f v))) = []"
  using assms
  by (auto simp add: colo_ctl_put_def qemu_put_be64_def qemu_put_buffer_def qemu_fflush_def
      qemu_file_get_error_def qemu_file_set_error_def Let_def EIO_def
      split: if_splits option.splits)

lemma put_shutdown_wr:
  assumes "pending f = []"
  shows "wr (qemu_fflush (snd (colo_ctl_put f v))) = wr f \<or>
         wr (qemu_fflush (snd (colo_ctl_put f v))) = wr f @ be64 v \<and>
           errno (qemu_fflush (snd (colo_ctl_put f v))) = 0"
  using assms
  by (auto simp add: colo_ctl_put_def qemu_put_be64_def qemu_put_buffer_def qemu_fflush_def
      qemu_file_get_error_def qemu_file_set_error_def Let_def EIO_def
      split: if_splits option.splits)

lemma put_shutdown_wr_ok:
  assumes "pending f = []" "errno (qemu_fflush (snd (colo_ctl_put f v))) = 0"
  shows "wr (qemu_fflush (snd (colo_ctl_put f v))) = wr f @ be64 v"
  using assms
  by (auto simp add: colo_ctl_put_def qemu_put_be64_def qemu_put_buffer_def qemu_fflush_def
      qemu_file_get_error_def qemu_file_set_error_def Let_def EIO_def
      split: if_splits option.splits)

lemma tx_finish_ok:
  assumes "tx_finish st = (Returns 0, st')" and "pending (mig_file st) = []"
  shows "16 \<le> length (rd (ctl_file st)) \<and>
         be64_decode (take 8 (rd (ctl_file st))) = COLO_CHECKPOINT_RECEIVED \<and>
         be64_decode (take 8 (drop 8 (rd (ctl_file st)))) = COLO_CHECKPOINT_LOADED \<and>
         rd (ctl_file st') = drop 16 (rd (ctl_file st)) \<and>
         colo_buffer st' = colo_buffer st \<and> pending (mig_file st') = [] \<and>
         (\<exists>tail. wr (mig_file st') = wr (mig_file st) @ tail \<and>
            (tail = [] \<or> tail = be64 COLO_GUEST_SHUTDOWN \<and> colo_shutdown_requested st \<noteq> 0) \<and>
            (colo_shutdown_requested st \<noteq> 0 \<and> errno (mig_file st') = 0 \<longrightarrow>
               tail = be64 COLO_GUEST_SHUTDOWN))"
proof -
  obtain r1 c1 ev1 where g1: "colo_ctl_get (ctl_file st) COLO_CHECKPOINT_RECEIVED = (r1, c1, ev1)"
    by (cases "colo_ctl_get (ctl_file st) COLO_CHECKPOINT_RECEIVED") auto
  define st1 where "st1 = emit ev1 (st\<lparr>ctl_file := c1\<rparr>)"
  obtain r2 c2 ev2 where g2: "colo_ctl_get (ctl_file st1) COLO_CHECKPOINT_LOADED = (r2, c2, ev2)"
    by (cases "colo_ctl_get (ctl_file st1) COLO_CHECKPOINT_LOADED") auto
  from assms(1) g1 obtain ret1 where r1: "r1 = Returns ret1" "\<not> ret1 < 0"
    by (cases r1) (auto simp add: tx_finish_def Let_def split: if_splits)
  from assms(1) g1 g2 r1 obtain ret2 where r2: "r2 = Returns ret2" "\<not> ret2 < 0"
    by (cases r2) (auto simp add: tx_finish_def Let_def st1_def split: if_splits)
  note k1 = colo_ctl_get_ok [OF g1 [unfolded r1(1)] r1(2)]
  note k2 = colo_ctl_get_ok [OF g2 [unfolded r2(1)] r2(2)]
  have c1: "ctl_file st1 = c1" by (simp add: st1_def emit_def)
  define st2 where "st2 = emit ev2 (st1\<lparr>ctl_file := c2\<rparr>)"
  have m2: "mig_file st2 = mig_file st" "colo_shutdown_requested st2 = colo_shutdown_requested st"
    "colo_buffer st2 = colo_buffer st" "ctl_file st2 = c2"
    by (simp_all add: st2_def st1_def emit_def)
  have st': "st' = emit [Iothread_unlock] (vm_start (emit [Iothread_lock]
        (if colo_shutdown_requested st2 \<noteq> 0 then
           emit [Shutdown_request_core]
             (st2\<lparr>mig_file := qemu_fflush (snd (colo_ctl_put (mig_file st2) COLO_GUEST_SHUTDOWN)),
                  colo_shutdown_requested := 0\<rparr>)
         else st2)))"
    using assms(1) g1 g2 r1 r2
    by (auto simp add: tx_finish_def Let_def st1_def st2_def)
  have rdc: "rd (ctl_file st') = rd c2" "colo_buffer st' = colo_buffer st"
    by (simp_all add: st' emit_def vm_start_def m2)
  have w: "mig_file st' = (if colo_shutdown_requested st \<noteq> 0
             then qemu_fflush (snd (colo_ctl_put (mig_file st) COLO_GUEST_SHUTDOWN))
             else mig_file st)"
    by (simp add: st' emit_def vm_start_def m2)
  have tail: "\<exists>tail. wr (mig_file st') = wr (mig_file st) @ tail \<and>
            (tail = [] \<or> tail = be64 COLO_GUEST_SHUTDOWN \<and> colo_shutdown_requested st \<noteq> 0) \<and>
            (colo_shutdown_requested st \<noteq> 0 \<and> errno (mig_file st') = 0 \<longrightarrow>
               tail = be64 COLO_GUEST_SHUTDOWN)"
  proof (cases "colo_shutdown_requested st \<noteq> 0")
    case False
    then show ?thesis by (simp add: w)
  next
    case True
    from put_shutdown_wr [OF assms(2), of COLO_GUEST_SHUTDOWN]
      put_shutdown_wr_ok [OF assms(2), of COLO_GUEST_SHUTDOWN]
    show ?thesis using True by (auto simp add: w)
  qed
  have pend: "pending (mig_file st') = []"
    using put_shutdown_pending [OF assms(2), of COLO_GUEST_SHUTDOWN] assms(2) by (simp add: w)
  from k1 k2 c1 have "8 \<le> length (rd (ctl_file st)) - 8" by simp
  then have "16 \<le> length (rd (ctl_file st))" by arith
  with k1 k2 c1 rdc tail pend show ?thesis
    by (simp add: drop_drop add.commute)
qed


lemma put_buffer_flush_ok:
  assumes "pending f = []" and "\<not> qemu_file_get_error (qemu_fflush (qemu_put_buffer f bs)) < 0"
  shows "wr (qemu_fflush (qemu_put_buffer f bs)) = wr f @ bs \<and>
         pending (qemu_fflush (qemu_put_buffer f bs)) = [] \<and>
         errno (qemu_fflush (qemu_put_buffer f bs)) = 0"
  using assms
  by (auto simp add: qemu_put_buffer_def qemu_fflush_def
      qemu_file_get_error_def qemu_file_set_error_def Let_def EIO_def
      split: if_splits option.splits)

lemma tx_send_ok:
  assumes "tx_send e st = (Returns 0, st')"
  shows "16 \<le> length (rd (ctl_file st)) \<and>
         be64_decode (take 8 (rd (ctl_file st))) = COLO_CHECKPOINT_RECEIVED \<and>
         be64_decode (take 8 (drop 8 (rd (ctl_file st)))) = COLO_CHECKPOINT_LOADED \<and>
         rd (ctl_file st') = drop 16 (rd (ctl_file st)) \<and>
         colo_buffer st' = colo_buffer st @ vmstate_begin e @ vmstate_complete e \<and>
         pending (mig_file st') = [] \<and>
         (\<exists>tail. wr (mig_file st') =
            wr (mig_file st) @ pending (mig_file st) @ be64 COLO_CHECKPOINT_SEND @
            be64 (of_nat (length (colo_buffer st'))) @ colo_buffer st' @ tail \<and>
            (tail = [] \<or> tail = be64 COLO_GUEST_SHUTDOWN \<and> colo_shutdown_requested st \<noteq> 0) \<and>
            (colo_shutdown_requested st \<noteq> 0 \<and> errno (mig_file st') = 0 \<longrightarrow>
               tail = be64 COLO_GUEST_SHUTDOWN))"
proof -
  define buf where "buf = colo_buffer st @ vmstate_begin e @ vmstate_complete e"
  define st2 where "st2 = emit [Proxy_checkpoint]
     (emit [Savevm_state_begin, Iothread_lock, Savevm_state_complete, Iothread_unlock]
        (st\<lparr>params_blk := 0, params_shared := 0, colo_buffer := buf\<rparr>))"
  obtain ret1 f1 where p1: "colo_ctl_put (mig_file st2) COLO_CHECKPOINT_SEND = (ret1, f1)"
    by (cases "colo_ctl_put (mig_file st2) COLO_CHECKPOINT_SEND") auto
  define st3 where "st3 = st2\<lparr>mig_file := f1\<rparr>"
  obtain ret2 f2 where p2: "colo_ctl_put (mig_file st3) (of_nat (length (colo_buffer st3))) = (ret2, f2)"
    by (cases "colo_ctl_put (mig_file st3) (of_nat (length (colo_buffer st3)))") auto
  define st4 where "st4 = st3\<lparr>mig_file := f2\<rparr>"
  define f3 where "f3 = qemu_fflush (qemu_put_buffer (mig_file st4)
                          (take (length (colo_buffer st3)) (colo_buffer st4)))"
  define st5 where "st5 = st4\<lparr>mig_file := f3\<rparr>"
  have unf: "tx_send e st =
      (if proxy_checkpoint_ret e < 0 then (Returns (proxy_checkpoint_ret e), st2)
       else if ret1 < 0 then (Returns ret1, st3)
       else if ret2 < 0 then (Returns ret2, st4)
       else if qemu_file_get_error f3 < 0 then (Returns (qemu_file_get_error f3), st5)
       else tx_finish st5)"
    using p1 p2
    by (simp add: tx_send_def Let_def buf_def [symmetric] st2_def [symmetric]
        st3_def [symmetric] st4_def [symmetric] f3_def [symmetric] st5_def [symmetric])
  from assms unf have ok: "\<not> ret1 < 0" "\<not> ret2 < 0" "\<not> qemu_file_get_error f3 < 0"
    and fin: "tx_finish st5 = (Returns 0, st')"
    by (auto split: if_splits)
  have m: "mig_file st2 = mig_file st" "colo_buffer st2 = buf" "ctl_file st2 = ctl_file st"
    "colo_shutdown_requested st2 = colo_shutdown_requested st"
    by (simp_all add: st2_def emit_def)
  note k1 = colo_ctl_put_ok [OF p1 ok(1)]
  have m3: "mig_file st3 = f1" "colo_buffer st3 = buf" by (simp_all add: st3_def m)
  note k2 = colo_ctl_put_ok [OF p2 ok(2)]
  have m4: "mig_file st4 = f2" "colo_buffer st4 = buf" by (simp_all add: st4_def m3)
  have "pending f2 = []" using k2 by simp
  from put_buffer_flush_ok [OF this, of "take (length buf) buf"] ok(3)
  have k3: "wr f3 = wr f2 @ buf" "pending f3 = []" "errno f3 = 0"
    by (simp_all add: f3_def m3 m4)
  have m5: "mig_file st5 = f3" "colo_buffer st5 = buf" "ctl_file st5 = ctl_file st"
    "colo_shutdown_requested st5 = colo_shutdown_requested st"
    by (simp_all add: st5_def st4_def st3_def m)
  have "pending (mig_file st5) = []" using k3 m5 by simp
  from tx_finish_ok [OF fin this] k1 k2 k3 m m3 m4 m5 show ?thesis
    by (auto simp add: buf_def)
qed


lemma colo_ctl_get_ev:
  "colo_ctl_get f t = (r, g, ev) \<Longrightarrow> ev = [] \<or> (\<exists>v. ev = [Error_unexpected_state t v])"
  by (auto simp add: colo_ctl_get_def Let_def split: prod.splits if_splits)

lemma tx_finish_trace:
  assumes "tx_finish st = (r, st')"
  shows "\<exists>new. trace st' = trace st @ new \<and> (\<forall>b. Failover_checked b \<notin> set new) \<and>
           Vm_stop_force_state \<notin> set new \<and> Savevm_state_begin \<notin> set new \<and>
           Savevm_state_complete \<notin> set new"
  using assms
  by (auto simp add: tx_finish_def Let_def emit_def vm_start_def
      split: prod.splits outcome.splits if_splits dest!: colo_ctl_get_ev)

lemma tx_send_events:
  assumes "tx_send e st = (r, st')"
  shows "\<exists>rest. trace st' = trace st @ [Savevm_state_begin, Iothread_lock, Savevm_state_complete,
                                       Iothread_unlock, Proxy_checkpoint] @ rest"
  using assms
  by (auto simp add: tx_send_def Let_def emit_def
      split: prod.splits if_splits dest!: tx_finish_trace)

lemma tx_stop_vm_flag_set:
  assumes "failover_request_is_set st"
  shows "tx_stop_vm e st = (Returns (- 1), emit [Failover_checked True] st)"
  using assms by (simp add: tx_stop_vm_def Let_def)

lemma tx_stop_vm_flag_raised:
  assumes "\<not> failover_request_is_set st" and "failover_during_stop e"
  shows "tx_stop_vm e st =
     (Returns (- 1),
      emit [Failover_checked True]
        ((emit [Iothread_unlock] (vm_stop_force_state (emit [Iothread_lock]
            (emit [Failover_checked False] st))))\<lparr>failover_request := True\<rparr>))"
  using assms
  by (simp add: tx_stop_vm_def Let_def failover_request_is_set_def emit_def vm_stop_force_state_def)

lemma tx_stop_vm_flag_clear:
  assumes "\<not> failover_request_is_set st" and "\<not> failover_during_stop e"
  shows "tx_stop_vm e st =
     tx_send e (emit [Failover_checked False]
        (emit [Iothread_unlock] (vm_stop_force_state (emit [Iothread_lock]
            (emit [Failover_checked False] st)))))"
  using assms
  by (simp add: tx_stop_vm_def Let_def failover_request_is_set_def emit_def vm_stop_force_state_def)

lemma tx_close_trans_trace:
  assumes "tx_close_trans x = (r, st')"
  shows "fst x = r \<and> colo_buffer st' = colo_buffer (snd x) \<and>
         (trace st' = trace (snd x) \<or> trace st' = trace (snd x) @ [Qemu_fclose ''trans''])"
  using assms
  by (cases x; cases "fst x") (auto simp add: tx_close_trans_def emit_def)

lemma tx_stop_vm_ok:
  assumes "tx_stop_vm e st = (Returns 0, st')"
  shows "tx_send e (emit [Failover_checked False]
           ((emit [Iothread_unlock] (vm_stop_force_state (emit [Iothread_lock]
              (emit [Failover_checked False] st))))\<lparr>failover_request := False\<rparr>)) = (Returns 0, st')"
  using assms
  by (auto simp add: tx_stop_vm_def Let_def failover_request_is_set_def emit_def
      vm_stop_force_state_def split: if_splits)

text \<open>What a transaction that returns 0 after opening its view has written and read.\<close>

lemma transaction_ok:
  assumes "colo_do_checkpoint_transaction e st = (Returns 0, st')" and "bufopen_ok e"
  shows "24 \<le> length (rd (ctl_file st)) \<and>
         be64_decode (take 8 (rd (ctl_file st))) = COLO_CHECKPOINT_SUSPENDED \<and>
         be64_decode (take 8 (drop 8 (rd (ctl_file st)))) = COLO_CHECKPOINT_RECEIVED \<and>
         be64_decode (take 8 (drop 16 (rd (ctl_file st)))) = COLO_CHECKPOINT_LOADED \<and>
         rd (ctl_file st') = drop 24 (rd (ctl_file st)) \<and>
         colo_buffer st' = vmstate_begin e @ vmstate_complete e \<and>
         pending (mig_file st') = [] \<and>
         (\<exists>tail. wr (mig_file st') =
            wr (mig_file st) @ pending (mig_file st) @ be64 COLO_CHECKPOINT_NEW @
            be64 COLO_CHECKPOINT_SEND @ be64 (of_nat (length (colo_buffer st'))) @
            colo_buffer st' @ tail \<and>
            (tail = [] \<or> tail = be64 COLO_GUEST_SHUTDOWN \<and> colo_shutdown_requested st \<noteq> 0) \<and>
            (colo_shutdown_requested st \<noteq> 0 \<and> errno (mig_file st') = 0 \<longrightarrow>
               tail = be64 COLO_GUEST_SHUTDOWN))"
proof -
  obtain ret1 f1 where p1: "colo_ctl_put (mig_file st) COLO_CHECKPOINT_NEW = (ret1, f1)"
    by (cases "colo_ctl_put (mig_file st) COLO_CHECKPOINT_NEW") auto
  obtain r2 c2 ev2 where g2: "colo_ctl_get (ctl_file st) COLO_CHECKPOINT_SUSPENDED = (r2, c2, ev2)"
    by (cases "colo_ctl_get (ctl_file st) COLO_CHECKPOINT_SUSPENDED") auto
  define st3 where "st3 = (emit ev2 (st\<lparr>mig_file := f1, ctl_file := c2\<rparr>))\<lparr>colo_buffer := []\<rparr>"
  from assms p1 have n1: "\<not> ret1 < 0"
    by (auto simp add: colo_do_checkpoint_transaction_def)
  from assms p1 g2 n1 obtain ret2 where r2: "r2 = Returns ret2" "\<not> ret2 < 0"
    by (cases r2) (auto simp add: colo_do_checkpoint_transaction_def Let_def split: if_splits)
  from assms p1 g2 n1 r2 have unf: "tx_close_trans (tx_stop_vm e st3) = (Returns 0, st')"
    by (simp add: colo_do_checkpoint_transaction_def Let_def st3_def)
  obtain ss where ts: "tx_stop_vm e st3 = (Returns 0, ss)"
    and st': "st' = emit [Qemu_fclose ''trans''] ss"
    using unf by (cases "tx_stop_vm e st3"; cases "fst (tx_stop_vm e st3)")
      (auto simp add: tx_close_trans_def)
  note k1 = colo_ctl_put_ok [OF p1 n1]
  note k2 = colo_ctl_get_ok [OF g2 [unfolded r2(1)] r2(2)]
  define st7 where "st7 = emit [Failover_checked False]
           ((emit [Iothread_unlock] (vm_stop_force_state (emit [Iothread_lock]
              (emit [Failover_checked False] st3))))\<lparr>failover_request := False\<rparr>)"
  have m7: "mig_file st7 = f1" "ctl_file st7 = c2" "colo_buffer st7 = []"
    "colo_shutdown_requested st7 = colo_shutdown_requested st"
    by (simp_all add: st7_def st3_def emit_def vm_stop_force_state_def)
  from tx_stop_vm_ok [OF ts] have "tx_send e st7 = (Returns 0, ss)" by (simp add: st7_def)
  note k3 = tx_send_ok [OF this]
  have s': "mig_file st' = mig_file ss" "ctl_file st' = ctl_file ss" "colo_buffer st' = colo_buffer ss"
    by (simp_all add: st' emit_def)
  from k2 k3 have "16 \<le> length (rd (ctl_file st)) - 8" by (simp add: m7)
  then have "24 \<le> length (rd (ctl_file st))" by arith
  moreover from k3 obtain tail where "wr (mig_file ss) =
            wr f1 @ pending f1 @ be64 COLO_CHECKPOINT_SEND @
            be64 (of_nat (length (colo_buffer ss))) @ colo_buffer ss @ tail"
    "tail = [] \<or> tail = be64 COLO_GUEST_SHUTDOWN \<and> colo_shutdown_requested st \<noteq> 0"
    "colo_shutdown_requested st \<noteq> 0 \<and> errno (mig_file ss) = 0 \<longrightarrow>
               tail = be64 COLO_GUEST_SHUTDOWN"
    unfolding m7 by blast
  moreover from k3 have "colo_buffer ss = vmstate_begin e @ vmstate_complete e"
    "pending (mig_file ss) = []" "rd (ctl_file ss) = drop 16 (rd c2)"
    "be64_decode (take 8 (rd c2)) = COLO_CHECKPOINT_RECEIVED"
    "be64_decode (take 8 (drop 8 (rd c2))) = COLO_CHECKPOINT_LOADED"
    by (simp_all add: m7)
  ultimately show ?thesis
    using k1 k2 unfolding s'
    by (intro conjI exI [of _ tail]) (simp_all add: drop_drop add.commute)
qed

text \<open>
  C5. A Primary transaction reads the failover flag before it stops the VM and again
  right after the stop, and a read that finds the flag set ends the transaction with -1
  before the serializer is called. For every transaction: if the VM is stopped, the flag
  was clear at entry and the events begin with a read that found it clear, the stop
  under the lock, and a second read whose value is the flag's after the stop; and the
  serializer is called only if the flag was clear at both reads. For a transaction that
  gets to the first read (\<^verbatim>\<open>COLO_CHECKPOINT_NEW\<close> sent, \<^verbatim>\<open>COLO_CHECKPOINT_SUSPENDED\<close>
  received, the view of the buffer opened): with the flag set at entry the result is -1,
  the only events are the read and the close of the view, the run state is untouched,
  the buffer is empty and nothing more is sent; with the flag raised during the stop the
  result is -1 right after the second read, the buffer empty and nothing more sent; with
  the flag clear at both reads the serializer follows the second read.
\<close>

theorem transaction_failover_checks:
  assumes "colo_do_checkpoint_transaction e st = (r, st')"
  shows "\<exists>new. trace st' = trace st @ new \<and>
     (Vm_stop_force_state \<in> set new \<longrightarrow>
        \<not> failover_request_is_set st \<and>
        (\<exists>rest. new = [Failover_checked False, Iothread_lock, Vm_stop_force_state,
                        Iothread_unlock, Failover_checked (failover_during_stop e)] @ rest)) \<and>
     (Savevm_state_begin \<in> set new \<or> Savevm_state_complete \<in> set new \<longrightarrow>
        \<not> failover_request_is_set st \<and> \<not> failover_during_stop e \<and>
        Vm_stop_force_state \<in> set new) \<and>
     (fst (colo_ctl_put (mig_file st) COLO_CHECKPOINT_NEW) = 0 \<and>
      fst (colo_ctl_get (ctl_file st) COLO_CHECKPOINT_SUSPENDED) = Returns 0 \<and> bufopen_ok e \<longrightarrow>
        (failover_request_is_set st \<longrightarrow>
           r = Returns (- 1) \<and> new = [Failover_checked True, Qemu_fclose ''trans''] \<and>
           colo_buffer st' = [] \<and> runstate st' = runstate st \<and>
           mig_file st' = snd (colo_ctl_put (mig_file st) COLO_CHECKPOINT_NEW)) \<and>
        (\<not> failover_request_is_set st \<and> failover_during_stop e \<longrightarrow>
           r = Returns (- 1) \<and>
           new = [Failover_checked False, Iothread_lock, Vm_stop_force_state, Iothread_unlock,
                  Failover_checked True, Qemu_fclose ''trans''] \<and>
           colo_buffer st' = [] \<and> failover_request_is_set st' \<and>
           mig_file st' = snd (colo_ctl_put (mig_file st) COLO_CHECKPOINT_NEW)) \<and>
        (\<not> failover_request_is_set st \<and> \<not> failover_during_stop e \<longrightarrow>
           (\<exists>rest. new = [Failover_checked False, Iothread_lock, Vm_stop_force_state,
                           Iothread_unlock, Failover_checked False, Savevm_state_begin,
                           Iothread_lock, Savevm_state_complete, Iothread_unlock,
                           Proxy_checkpoint] @ rest)))"
proof -
  obtain ret1 f1 where p1: "colo_ctl_put (mig_file st) COLO_CHECKPOINT_NEW = (ret1, f1)"
    by (cases "colo_ctl_put (mig_file st) COLO_CHECKPOINT_NEW") auto
  obtain r2 c2 ev2 where g2: "colo_ctl_get (ctl_file st) COLO_CHECKPOINT_SUSPENDED = (r2, c2, ev2)"
    by (cases "colo_ctl_get (ctl_file st) COLO_CHECKPOINT_SUSPENDED") auto
  define st2 where "st2 = emit ev2 (st\<lparr>mig_file := f1, ctl_file := c2\<rparr>)"
  define st3 where "st3 = st2\<lparr>colo_buffer := []\<rparr>"
  have t2: "trace st2 = trace st @ ev2" by (simp add: st2_def emit_def)
  from colo_ctl_get_ev [OF g2] have ev2: "Vm_stop_force_state \<notin> set ev2"
    "Savevm_state_begin \<notin> set ev2" "Savevm_state_complete \<notin> set ev2"
    by auto
  show ?thesis
  proof (cases "ret1 < 0")
    case True
    with assms p1 have "st' = st\<lparr>mig_file := f1\<rparr>"
      by (auto simp add: colo_do_checkpoint_transaction_def)
    with True p1 show ?thesis by simp
  next
    case n1: False
    show ?thesis
    proof (cases "\<exists>ret2. r2 = Returns ret2 \<and> \<not> ret2 < 0")
      case False
      with assms p1 g2 n1 have "st' = st2"
        by (cases r2) (auto simp add: colo_do_checkpoint_transaction_def Let_def st2_def)
      moreover from False have "r2 \<noteq> Returns 0" by auto
      ultimately show ?thesis using t2 ev2 g2 by auto
    next
      case True
      then obtain ret2 where r2: "r2 = Returns ret2" "\<not> ret2 < 0" by blast
      from colo_ctl_get_ok [OF g2 [unfolded r2(1)] r2(2)] have e2: "ev2 = []" by simp
      have t3: "trace st3 = trace st" "colo_buffer st3 = []" "runstate st3 = runstate st"
        "mig_file st3 = f1" "failover_request_is_set st3 = failover_request_is_set st"
        by (simp_all add: st3_def st2_def emit_def e2 failover_request_is_set_def)
      show ?thesis
      proof (cases "bufopen_ok e")
        case False
        with assms p1 g2 n1 r2
        have "st' = emit [Error_report ''Open colo buffer for write failed''] st3"
          by (simp add: colo_do_checkpoint_transaction_def Let_def st2_def st3_def)
        with t3 False have "trace st' = trace st @ [Error_report ''Open colo buffer for write failed'']"
          by (simp add: emit_def)
        with False show ?thesis by simp
      next
        case b: True
        with assms p1 g2 n1 r2 have unf: "tx_close_trans (tx_stop_vm e st3) = (r, st')"
          by (simp add: colo_do_checkpoint_transaction_def Let_def st2_def st3_def)
        consider (set) "failover_request_is_set st"
          | (raised) "\<not> failover_request_is_set st" "failover_during_stop e"
          | (clear) "\<not> failover_request_is_set st" "\<not> failover_during_stop e"
          by blast
        then show ?thesis
        proof cases
          case set
          with t3 have "failover_request_is_set st3" by simp
          from unf [unfolded tx_stop_vm_flag_set [OF this]]
          have r: "r = Returns (- 1)"
            and s: "st' = emit [Qemu_fclose ''trans''] (emit [Failover_checked True] st3)"
            by (simp_all add: tx_close_trans_def)
          from s t3 have "trace st' = trace st @ [Failover_checked True, Qemu_fclose ''trans'']"
            "colo_buffer st' = []" "runstate st' = runstate st" "mig_file st' = f1"
            by (simp_all add: emit_def)
          with r set p1 show ?thesis by simp
        next
          case raised
          with t3 have "\<not> failover_request_is_set st3" by simp
          from unf [unfolded tx_stop_vm_flag_raised [OF this raised(2)]]
          have r: "r = Returns (- 1)"
            and s: "st' = emit [Qemu_fclose ''trans''] (emit [Failover_checked True]
               ((emit [Iothread_unlock] (vm_stop_force_state (emit [Iothread_lock]
                  (emit [Failover_checked False] st3))))\<lparr>failover_request := True\<rparr>))"
            by (simp_all add: tx_close_trans_def)
          from s t3 have "trace st' = trace st @ [Failover_checked False, Iothread_lock,
              Vm_stop_force_state, Iothread_unlock, Failover_checked True, Qemu_fclose ''trans'']"
            "colo_buffer st' = []" "failover_request_is_set st'" "mig_file st' = f1"
            by (simp_all add: emit_def vm_stop_force_state_def failover_request_is_set_def)
          with r raised p1 show ?thesis by simp
        next
          case clear
          with t3 have n: "\<not> failover_request_is_set st3" by simp
          define st4 where "st4 = emit [Failover_checked False]
            (emit [Iothread_unlock] (vm_stop_force_state (emit [Iothread_lock]
              (emit [Failover_checked False] st3))))"
          have t4: "trace st4 = trace st @ [Failover_checked False, Iothread_lock,
              Vm_stop_force_state, Iothread_unlock, Failover_checked False]"
            by (simp add: st4_def emit_def vm_stop_force_state_def t3)
          obtain rs ss where ts: "tx_send e st4 = (rs, ss)" by (cases "tx_send e st4") auto
          from tx_send_events [OF ts] obtain rest where
            rest: "trace ss = trace st4 @ [Savevm_state_begin, Iothread_lock,
               Savevm_state_complete, Iothread_unlock, Proxy_checkpoint] @ rest"
            by blast
          from unf have unf': "tx_close_trans (rs, ss) = (r, st')"
            by (simp add: tx_stop_vm_flag_clear [OF n clear(2)] st4_def [symmetric] ts)
          from tx_close_trans_trace [OF unf']
          have "trace st' = trace ss \<or> trace st' = trace ss @ [Qemu_fclose ''trans'']" by simp
          then obtain fin where "trace st' = trace ss @ fin" by auto
          with rest t4 have "trace st' = trace st @ [Failover_checked False, Iothread_lock,
              Vm_stop_force_state, Iothread_unlock, Failover_checked False, Savevm_state_begin,
              Iothread_lock, Savevm_state_complete, Iothread_unlock, Proxy_checkpoint] @ (rest @ fin)"
            by simp
          with clear show ?thesis by simp
        qed
      qed
    qed
  qed
qed


lemmas state_defs = initial_state_def calm_tx_def emit_def vm_start_def vm_stop_force_state_def
  failover_request_is_set_def
lemmas tx_defs = colo_do_checkpoint_transaction_def tx_stop_vm_def tx_send_def tx_finish_def
  tx_close_trans_def

theorem transaction_failover_checks_witness:
  "fst (colo_do_checkpoint_transaction calm_tx
          ((initial_state [] (be64 COLO_CHECKPOINT_SUSPENDED))\<lparr>failover_request := True\<rparr>)) =
     Returns (- 1) \<and>
   trace (snd (colo_do_checkpoint_transaction calm_tx
          ((initial_state [] (be64 COLO_CHECKPOINT_SUSPENDED))\<lparr>failover_request := True\<rparr>))) =
     [Failover_checked True, Qemu_fclose ''trans''] \<and>
   fst (colo_do_checkpoint_transaction (calm_tx\<lparr>failover_during_stop := True\<rparr>)
          (initial_state [] (be64 COLO_CHECKPOINT_SUSPENDED))) = Returns (- 1) \<and>
   trace (snd (colo_do_checkpoint_transaction (calm_tx\<lparr>failover_during_stop := True\<rparr>)
          (initial_state [] (be64 COLO_CHECKPOINT_SUSPENDED)))) =
     [Failover_checked False, Iothread_lock, Vm_stop_force_state, Iothread_unlock,
      Failover_checked True, Qemu_fclose ''trans''] \<and>
   take 10 (trace (snd (colo_do_checkpoint_transaction calm_tx
          (initial_state [] (be64 COLO_CHECKPOINT_SUSPENDED))))) =
     [Failover_checked False, Iothread_lock, Vm_stop_force_state, Iothread_unlock,
      Failover_checked False, Savevm_state_begin, Iothread_lock, Savevm_state_complete,
      Iothread_unlock, Proxy_checkpoint]"
proof -
  define p where "p = initial_state [] (be64 COLO_CHECKPOINT_SUSPENDED)"
  define q where "q = p\<lparr>failover_request := True\<rparr>"
  define e where "e = calm_tx\<lparr>failover_during_stop := True\<rparr>"
  have p: "fst (colo_ctl_put (mig_file p) COLO_CHECKPOINT_NEW) = 0"
    "fst (colo_ctl_get (ctl_file p) COLO_CHECKPOINT_SUSPENDED) = Returns 0"
    "\<not> failover_request_is_set p" "trace p = []"
    by (simp_all add: p_def state_defs codec_defs token_defs fresh_file_def Let_def)
  have q: "fst (colo_ctl_put (mig_file q) COLO_CHECKPOINT_NEW) = 0"
    "fst (colo_ctl_get (ctl_file q) COLO_CHECKPOINT_SUSPENDED) = Returns 0"
    "failover_request_is_set q" "trace q = []"
    by (simp_all add: q_def p_def state_defs codec_defs token_defs fresh_file_def Let_def)
  have e: "bufopen_ok calm_tx" "\<not> failover_during_stop calm_tx" "bufopen_ok e"
    "failover_during_stop e"
    by (simp_all add: e_def calm_tx_def)
  from transaction_failover_checks [OF surjective_pairing, of calm_tx q] q e
  have 1: "fst (colo_do_checkpoint_transaction calm_tx q) = Returns (- 1)"
    "trace (snd (colo_do_checkpoint_transaction calm_tx q)) =
       [Failover_checked True, Qemu_fclose ''trans'']"
    by auto
  from transaction_failover_checks [OF surjective_pairing, of e p] p e
  have 2: "fst (colo_do_checkpoint_transaction e p) = Returns (- 1)"
    "trace (snd (colo_do_checkpoint_transaction e p)) =
       [Failover_checked False, Iothread_lock, Vm_stop_force_state, Iothread_unlock,
        Failover_checked True, Qemu_fclose ''trans'']"
    by auto
  from transaction_failover_checks [OF surjective_pairing, of calm_tx p] p e
  have 3: "take 10 (trace (snd (colo_do_checkpoint_transaction calm_tx p))) =
       [Failover_checked False, Iothread_lock, Vm_stop_force_state, Iothread_unlock,
        Failover_checked False, Savevm_state_begin, Iothread_lock, Savevm_state_complete,
        Iothread_unlock, Proxy_checkpoint]"
    by auto
  from 1 2 3 show ?thesis by (simp add: q_def p_def e_def)
qed

subsection \<open>The Primary's loop\<close>

text \<open>
  C7, with the two exits of a pass that the claim leaves out. In a pass of the Primary's
  loop that finds no failover request: when the proxy reports divergence (a positive
  result) less than 100 ms after the last checkpoint, the loop sleeps exactly the
  remaining time (in microseconds) and then runs the transaction; when the proxy reports
  nothing (0) and less than \<^verbatim>\<open>colo_checkpoint_period\<close> ms have passed (10000 unless set
  otherwise), it sleeps 100 ms and runs no transaction, \<^verbatim>\<open>checkpoint_time\<close> unchanged;
  when the proxy reports an error (a negative result) the loop ends without a
  transaction; in the remaining cases the transaction runs at once. After a transaction
  that returns 0 the next pass starts with \<^verbatim>\<open>checkpoint_time\<close> set to the clock; after
  one that returns anything else the loop ends.
\<close>

theorem colo_thread_iteration_pacing:
  assumes "\<not> failover_request st"
  shows "(0 < compare_ret e \<and> now_trigger e - t < 100 \<longrightarrow>
            colo_thread_iteration e t st =
              do_checkpoint e (emit [Failover_checked False, Proxy_compare,
                                     Usleep (1000 * (100 - (now_trigger e - t)))] st)) \<and>
         (compare_ret e = 0 \<and> now_trigger e - t < colo_checkpoint_period st \<longrightarrow>
            colo_thread_iteration e t st =
              (Next_iteration t, emit [Failover_checked False, Proxy_compare, Usleep 100000] st)) \<and>
         (compare_ret e < 0 \<longrightarrow>
            colo_thread_iteration e t st =
              (Goto_out, emit [Failover_checked False, Proxy_compare] st)) \<and>
         (0 < compare_ret e \<and> \<not> now_trigger e - t < 100 \<or>
          compare_ret e = 0 \<and> \<not> now_trigger e - t < colo_checkpoint_period st \<longrightarrow>
            colo_thread_iteration e t st =
              do_checkpoint e (emit [Failover_checked False, Proxy_compare] st)) \<and>
         (\<forall>st1 st2. colo_do_checkpoint_transaction (tx e) st1 = (Returns 0, st2) \<longrightarrow>
            do_checkpoint e st1 = (Next_iteration (now_done e), st2)) \<and>
         (\<forall>st1 st2 r. colo_do_checkpoint_transaction (tx e) st1 = (Returns r, st2) \<and> r \<noteq> 0 \<longrightarrow>
            do_checkpoint e st1 = (Goto_out, st2)) \<and>
         colo_checkpoint_period (initial_state mig ctl) = 10000"
  using assms
  by (auto simp add: colo_thread_iteration_def Let_def failover_request_is_set_def emit_def
      CHECKPOINT_MIN_PERIOD_def do_checkpoint_def initial_state_def CHECKPOINT_MAX_PEROID_def)

theorem colo_thread_iteration_pacing_witness:
  "colo_thread_iteration (calm_iter\<lparr>compare_ret := 1\<rparr>) 0 (initial_state [] []) =
     do_checkpoint (calm_iter\<lparr>compare_ret := 1\<rparr>)
       (emit [Failover_checked False, Proxy_compare, Usleep 70000] (initial_state [] [])) \<and>
   colo_thread_iteration calm_iter 0 (initial_state [] []) =
     (Next_iteration 0,
      emit [Failover_checked False, Proxy_compare, Usleep 100000] (initial_state [] [])) \<and>
   colo_thread_iteration (calm_iter\<lparr>compare_ret := - 1\<rparr>) 0 (initial_state [] []) =
     (Goto_out, emit [Failover_checked False, Proxy_compare] (initial_state [] [])) \<and>
   colo_thread_iteration (calm_iter\<lparr>now_trigger := 10000\<rparr>) 0 (initial_state [] []) =
     do_checkpoint (calm_iter\<lparr>now_trigger := 10000\<rparr>)
       (emit [Failover_checked False, Proxy_compare] (initial_state [] []))"
proof -
  have f: "\<not> failover_request (initial_state [] [])" by (simp add: initial_state_def)
  have p: "colo_checkpoint_period (initial_state [] []) = 10000"
    by (simp add: initial_state_def CHECKPOINT_MAX_PEROID_def)
  show ?thesis
    using colo_thread_iteration_pacing [OF f, of "calm_iter\<lparr>compare_ret := 1\<rparr>" 0]
      colo_thread_iteration_pacing [OF f, of calm_iter 0]
      colo_thread_iteration_pacing [OF f, of "calm_iter\<lparr>compare_ret := - 1\<rparr>" 0]
      colo_thread_iteration_pacing [OF f, of "calm_iter\<lparr>now_trigger := 10000\<rparr>" 0]
    by (simp add: calm_iter_def p)
qed

text \<open>
  C7 as stated fails: with a negative result of the proxy neither of the two sleeping
  cases applies, and no transaction runs; and a transaction that fails (here the peer
  has closed the control channel) is followed by the end of the loop, not by a new
  \<^verbatim>\<open>checkpoint_time\<close>.
\<close>

theorem colo_thread_iteration_counterexample:
  "colo_thread_iteration (calm_iter\<lparr>compare_ret := - 1\<rparr>) 0 (initial_state [] []) =
     (Goto_out, emit [Failover_checked False, Proxy_compare] (initial_state [] [])) \<and>
   fst (colo_thread_iteration (calm_iter\<lparr>compare_ret := 1, now_trigger := 500\<rparr>) 0
          (initial_state [] [])) = Goto_out"
  by (simp add: colo_thread_iteration_def do_checkpoint_def tx_defs calm_iter_def state_defs
      codec_defs token_defs CHECKPOINT_MIN_PERIOD_def CHECKPOINT_MAX_PEROID_def Let_def)

subsection \<open>The end of the Secondary's loop\<close>

lemma wait_failover_completed_Some:
  "wait_failover_completed polls st = Some st' \<Longrightarrow>
     failover_completed st' \<and> (st' = st \<or> st' = st\<lparr>failover_completed := True\<rparr>)"
proof (induction polls arbitrary: st)
  case Nil
  then show ?case by (simp split: if_splits)
next
  case (Cons b polls)
  show ?case
  proof (cases "failover_completed st")
    case True
    with Cons.prems show ?thesis by simp
  next
    case False
    with Cons.prems have "wait_failover_completed polls (st\<lparr>failover_completed := b\<rparr>) = Some st'"
      by simp
    from Cons.IH [OF this] show ?thesis by auto
  qed
qed

text \<open>
  C8. At the label \<^verbatim>\<open>out\<close> of the Secondary: when the failover flag is clear and stays
  clear during the sleep of 2000000 microseconds, the proxy is destroyed and the process
  ends with \<^verbatim>\<open>exit(1)\<close>. When the flag is set at the first or at the second look, the
  loop waits for \<^verbatim>\<open>failover_completed\<close>: it never returns when nothing sets it, and
  otherwise it clears the failover flag and then releases its resources (the events
  after the wait are the releases only, and the flag is clear at the return).
\<close>

theorem colo_incoming_out_cases:
  "(\<not> failover_request st \<and> \<not> failover_during_sleep e \<longrightarrow>
      colo_incoming_out e c d st =
        (Exits 1,
         emit [Error_report ''Detect some error or get a failover request'',
               Failover_checked False, Usleep 2000000, Failover_checked False,
               Error_report ''SVM is going to exit!'', Proxy_destroy COLO_SECONDARY_MODE] st)) \<and>
   (failover_request st \<or> failover_during_sleep e \<longrightarrow>
      (let st3 = (if failover_request st then
                    emit [Error_report ''Detect some error or get a failover request'',
                          Failover_checked True, Failover_checked True] st
                  else
                    emit [Failover_checked True]
                      ((emit [Error_report ''Detect some error or get a failover request'',
                              Failover_checked False, Usleep 2000000] st)
                         \<lparr>failover_request := True\<rparr>))
       in case wait_failover_completed (exit_polls e) st3 of
            None \<Rightarrow> colo_incoming_out e c d st = (Hangs, st3)
          | Some st4 \<Rightarrow>
              failover_completed st4 \<and>
              colo_incoming_out e c d st =
                (Returns (), colo_incoming_release c d (failover_request_clear st4)) \<and>
              \<not> failover_request (snd (colo_incoming_out e c d st)) \<and>
              trace (snd (colo_incoming_out e c d st)) =
                trace st3 @ (if fb_open st then [Qemu_fclose ''fb''] else []) @
                [Ram_cache_release] @ (if c then [Qemu_fclose ''ctl''] else []) @
                [Qsb_free, Loadvm_exit_colo]))"
proof (intro conjI impI)
  assume "\<not> failover_request st \<and> \<not> failover_during_sleep e"
  then show "colo_incoming_out e c d st =
        (Exits 1,
         emit [Error_report ''Detect some error or get a failover request'',
               Failover_checked False, Usleep 2000000, Failover_checked False,
               Error_report ''SVM is going to exit!'', Proxy_destroy COLO_SECONDARY_MODE] st)"
    by (simp add: colo_incoming_out_def Let_def failover_request_is_set_def emit_def)
next
  assume a: "failover_request st \<or> failover_during_sleep e"
  define st3 where "st3 = (if failover_request st then
                    emit [Error_report ''Detect some error or get a failover request'',
                          Failover_checked True, Failover_checked True] st
                  else
                    emit [Failover_checked True]
                      ((emit [Error_report ''Detect some error or get a failover request'',
                              Failover_checked False, Usleep 2000000] st)
                         \<lparr>failover_request := True\<rparr>))"
  have unf: "colo_incoming_out e c d st =
      (case wait_failover_completed (exit_polls e) st3 of
         None \<Rightarrow> (Hangs, st3)
       | Some st4 \<Rightarrow> (Returns (), colo_incoming_release c d (failover_request_clear st4)))"
    using a by (auto simp add: colo_incoming_out_def Let_def failover_request_is_set_def
        emit_def st3_def split: option.splits)
  have "case wait_failover_completed (exit_polls e) st3 of
            None \<Rightarrow> colo_incoming_out e c d st = (Hangs, st3)
          | Some st4 \<Rightarrow>
              failover_completed st4 \<and>
              colo_incoming_out e c d st =
                (Returns (), colo_incoming_release c d (failover_request_clear st4)) \<and>
              \<not> failover_request (snd (colo_incoming_out e c d st)) \<and>
              trace (snd (colo_incoming_out e c d st)) =
                trace st3 @ (if fb_open st then [Qemu_fclose ''fb''] else []) @
                [Ram_cache_release] @ (if c then [Qemu_fclose ''ctl''] else []) @
                [Qsb_free, Loadvm_exit_colo]"
  proof (cases "wait_failover_completed (exit_polls e) st3")
    case None
    then show ?thesis by (simp add: unf)
  next
    case (Some st4)
    from wait_failover_completed_Some [OF Some]
    have f: "failover_completed st4" and t: "trace st4 = trace st3" "fb_open st4 = fb_open st3"
      by auto
    have fb: "fb_open st3 = fb_open st" by (simp add: st3_def emit_def)
    have "trace st3 = trace st @ (Error_report ''Detect some error or get a failover request'' #
                        Failover_checked (failover_request st) #
                        (if failover_request st then [] else [Usleep 2000000]) @
                        [Failover_checked True])"
      by (simp add: st3_def emit_def)
    with Some f t fb show ?thesis
      by (auto simp add: unf colo_incoming_release_def failover_request_clear_def emit_def Let_def)
  qed
  then show "let st3 = (if failover_request st then
                    emit [Error_report ''Detect some error or get a failover request'',
                          Failover_checked True, Failover_checked True] st
                  else
                    emit [Failover_checked True]
                      ((emit [Error_report ''Detect some error or get a failover request'',
                              Failover_checked False, Usleep 2000000] st)
                         \<lparr>failover_request := True\<rparr>))
       in case wait_failover_completed (exit_polls e) st3 of
            None \<Rightarrow> colo_incoming_out e c d st = (Hangs, st3)
          | Some st4 \<Rightarrow>
              failover_completed st4 \<and>
              colo_incoming_out e c d st =
                (Returns (), colo_incoming_release c d (failover_request_clear st4)) \<and>
              \<not> failover_request (snd (colo_incoming_out e c d st)) \<and>
              trace (snd (colo_incoming_out e c d st)) =
                trace st3 @ (if fb_open st then [Qemu_fclose ''fb''] else []) @
                [Ram_cache_release] @ (if c then [Qemu_fclose ''ctl''] else []) @
                [Qsb_free, Loadvm_exit_colo]"
    unfolding Let_def st3_def .
qed

theorem colo_incoming_out_cases_witness:
  "colo_incoming_out calm_exit True 1 (initial_state [] []) =
     (Exits 1,
      emit [Error_report ''Detect some error or get a failover request'',
            Failover_checked False, Usleep 2000000, Failover_checked False,
            Error_report ''SVM is going to exit!'', Proxy_destroy COLO_SECONDARY_MODE]
        (initial_state [] [])) \<and>
   fst (colo_incoming_out (calm_exit\<lparr>failover_during_sleep := True\<rparr>) True 1
          (initial_state [] [])) = Returns () \<and>
   \<not> failover_request (snd (colo_incoming_out (calm_exit\<lparr>failover_during_sleep := True\<rparr>) True 1
          (initial_state [] []))) \<and>
   trace (snd (colo_incoming_out (calm_exit\<lparr>failover_during_sleep := True\<rparr>) True 1
          (initial_state [] []))) =
     [Error_report ''Detect some error or get a failover request'',
      Failover_checked False, Usleep 2000000, Failover_checked True,
      Ram_cache_release, Qemu_fclose ''ctl'', Qsb_free, Loadvm_exit_colo] \<and>
   fst (colo_incoming_out (calm_exit\<lparr>failover_during_sleep := True, exit_polls := []\<rparr>) True 1
          (initial_state [] [])) = Hangs"
proof -
  have f: "\<not> failover_request (initial_state [] [])" "\<not> fb_open (initial_state [] [])"
    "trace (initial_state [] []) = []" "\<not> failover_completed (initial_state [] [])"
    by (simp_all add: initial_state_def)
  show ?thesis
    using colo_incoming_out_cases [of "initial_state [] []" calm_exit True 1]
      colo_incoming_out_cases [of "initial_state [] []"
        "calm_exit\<lparr>failover_during_sleep := True\<rparr>" True 1]
      colo_incoming_out_cases [of "initial_state [] []"
        "calm_exit\<lparr>failover_during_sleep := True, exit_polls := []\<rparr>" True 1]
    by (simp add: calm_exit_def f emit_def Let_def colo_incoming_release_def
        failover_request_clear_def)
qed

subsection \<open>The failover request\<close>

lemma failover_request_set_fields:
  "failover_request (failover_request_set st) \<and>
   bhs (failover_request_set st) =
     bhs st @ [\<lparr>bh_cb = Colo_failover_bh, bh_scheduled = True, bh_deleted = False\<rparr>] \<and>
   failover_bh (failover_request_set st) = Some (length (bhs st))"
  by (simp add: failover_request_set_def qemu_bh_new_def qemu_bh_schedule_def Let_def)

lemma scheduled_bhs_failover_request_set:
  "scheduled_bhs Colo_failover_bh (failover_request_set st) =
     Suc (scheduled_bhs Colo_failover_bh st)"
  by (simp add: scheduled_bhs_def failover_request_set_fields)

lemma failover_request_set_times_fields:
  "scheduled_bhs Colo_failover_bh (failover_request_set_times n st) =
     scheduled_bhs Colo_failover_bh st + n \<and>
   (0 < n \<or> failover_request st \<longrightarrow> failover_request (failover_request_set_times n st))"
proof (induction n arbitrary: st)
  case 0
  show ?case by simp
next
  case (Suc n)
  from Suc.IH [of "failover_request_set st"] show ?case
    by (simp add: scheduled_bhs_failover_request_set failover_request_set_fields)
qed

lemma colo_do_failover_completed:
  "colo_do_failover e st = (Returns u, st1) \<Longrightarrow> failover_completed st1"
  by (auto simp add: colo_do_failover_def Let_def split: prod.splits outcome.splits if_splits)

lemma rising_edges_completed:
  "failover_completed st \<Longrightarrow> rising_edges (colo_do_failover_runs es st) = 0"
proof (induction es arbitrary: st)
  case Nil
  show ?case by simp
next
  case (Cons e es)
  show ?case
  proof (cases "colo_do_failover e st")
    case (Pair r st1)
    show ?thesis
    proof (cases r)
      case (Returns u)
      with Pair have c: "failover_completed st1" by (auto dest: colo_do_failover_completed)
      from Cons.IH [OF c] Cons.prems Pair Returns c show ?thesis
        by (cases es) (auto split: prod.splits outcome.splits)
    qed (use Pair Cons.prems in auto)
  qed
qed

text \<open>
  What repeated calls do. \<^verbatim>\<open>failover_request_set\<close> has no guard: every call sets the
  flag and makes and schedules one more bottom half, so \<open>n\<close> calls leave \<open>n\<close> more
  scheduled bottom halves and, for \<open>n > 0\<close>, the flag set. \<^verbatim>\<open>failover_completed\<close> is
  set by \<^verbatim>\<open>colo_do_failover\<close> when it returns and never reset, so however often
  \<^verbatim>\<open>colo_do_failover\<close> runs the flag goes from false to true at most once, and exactly
  once when it was false and the first run returns.
\<close>

theorem failover_request_set_repeated:
  "scheduled_bhs Colo_failover_bh (failover_request_set_times n st) =
     scheduled_bhs Colo_failover_bh st + n \<and>
   (0 < n \<longrightarrow> failover_request (failover_request_set_times n st)) \<and>
   rising_edges (colo_do_failover_runs es st) \<le> 1 \<and>
   (\<not> failover_completed st \<and> (\<exists>u st1. colo_do_failover e st = (Returns u, st1)) \<longrightarrow>
      rising_edges (colo_do_failover_runs (e # es) st) = 1)"
proof -
  have a: "rising_edges (colo_do_failover_runs (e # es) st) = 1"
    if "\<not> failover_completed st" "colo_do_failover e st = (Returns u, st1)" for e es u st1
  proof -
    from that(2) have c: "failover_completed st1" by (rule colo_do_failover_completed)
    from rising_edges_completed [OF c, of es] that c show ?thesis
      by (cases es) (auto split: prod.splits outcome.splits)
  qed
  have b: "rising_edges (colo_do_failover_runs es st) \<le> 1"
  proof (cases "failover_completed st")
    case True
    then show ?thesis by (simp add: rising_edges_completed)
  next
    case False
    show ?thesis
    proof (cases es)
      case Nil
      then show ?thesis by simp
    next
      case (Cons e' es')
      show ?thesis
      proof (cases "colo_do_failover e' st")
        case (Pair r st1)
        show ?thesis
        proof (cases r)
          case (Returns u)
          with a [OF False, of e' u st1 es'] Pair Cons show ?thesis by simp
        qed (use Pair Cons in auto)
      qed
    qed
  qed
  from a b failover_request_set_times_fields [of n st] show ?thesis by blast
qed

theorem failover_request_set_repeated_witness:
  "scheduled_bhs Colo_failover_bh (failover_request_set_times 3 (initial_state [] [])) = 3 \<and>
   failover_request (failover_request_set_times 3 (initial_state [] [])) \<and>
   rising_edges (colo_do_failover_runs [calm_failover, calm_failover] (initial_state [] [])) = 1"
proof -
  have a: "\<not> failover_completed (initial_state [] [])"
    "scheduled_bhs Colo_failover_bh (initial_state [] []) = 0"
    by (simp_all add: initial_state_def scheduled_bhs_def)
  have b: "\<exists>u st1. colo_do_failover calm_failover (initial_state [] []) = (Returns u, st1)"
    by (simp add: colo_do_failover_def master_do_failover_def colo_runstate_is_stopped_def
        initial_state_def vm_stop_force_state_def emit_def Let_def)
  note t = failover_request_set_repeated [of 3 "initial_state [] []" "[calm_failover]" calm_failover]
  from t have 1: "scheduled_bhs Colo_failover_bh (failover_request_set_times 3 (initial_state [] [])) =
      scheduled_bhs Colo_failover_bh (initial_state [] []) + 3"
    by (rule conjunct1)
  from t have 2: "failover_request (failover_request_set_times 3 (initial_state [] []))"
    by simp
  from t a(1) b have 3: "rising_edges (colo_do_failover_runs [calm_failover, calm_failover]
      (initial_state [] [])) = 1"
    by blast
  from 1 2 3 a(2) show ?thesis by simp
qed

text \<open>
  C2 does not hold on the code. After two calls of \<^verbatim>\<open>failover_request_set\<close> two bottom
  halves are scheduled, not one, and \<^verbatim>\<open>failover_bh\<close> names only the second. The
  callback \<^verbatim>\<open>colo_failover_bh\<close> is written for a single request: its first run deletes
  the bottom half that \<^verbatim>\<open>failover_bh\<close> names and unsets the pointer; one bottom half is
  then still scheduled, and the callback's second run finds the pointer unset.
\<close>

theorem failover_request_set_twice:
  "failover_request (failover_request_set_times 2 (initial_state [] [])) \<and>
   scheduled_bhs Colo_failover_bh (failover_request_set_times 2 (initial_state [] [])) = 2 \<and>
   failover_bh (failover_request_set_times 2 (initial_state [] [])) = Some 1 \<and>
   (case colo_failover_bh (failover_request_set_times 2 (initial_state [] [])) of
      None \<Rightarrow> False
    | Some st \<Rightarrow> scheduled_bhs Colo_failover_bh st = 1 \<and> colo_failover_bh st = None)"
  by (simp add: numeral_2_eq_2 failover_request_set_fields scheduled_bhs_def initial_state_def
      colo_failover_bh_def qemu_bh_delete_def)

subsection \<open>The migration status\<close>

lemma tx_finish_mig_state: "mig_state (snd (tx_finish st)) = mig_state st"
  by (simp add: tx_finish_def Let_def emit_def vm_start_def
      split: prod.splits outcome.splits)

lemma tx_send_mig_state: "mig_state (snd (tx_send e st)) = mig_state st"
  by (simp add: tx_send_def Let_def emit_def tx_finish_mig_state split: prod.splits)

lemma tx_stop_vm_mig_state: "mig_state (snd (tx_stop_vm e st)) = mig_state st"
  by (simp add: tx_stop_vm_def Let_def emit_def vm_stop_force_state_def tx_send_mig_state)

lemma tx_close_trans_mig_state: "mig_state (snd (tx_close_trans x)) = mig_state (snd x)"
  by (simp add: tx_close_trans_def emit_def split: prod.splits outcome.splits)

lemma transaction_mig_state:
  "mig_state (snd (colo_do_checkpoint_transaction e st)) = mig_state st"
  by (simp add: colo_do_checkpoint_transaction_def Let_def emit_def tx_close_trans_mig_state
      tx_stop_vm_mig_state split: prod.splits outcome.splits)

lemma do_checkpoint_mig_state: "mig_state (snd (do_checkpoint e st)) = mig_state st"
proof -
  obtain r st1 where t: "colo_do_checkpoint_transaction (tx e) st = (r, st1)"
    by (cases "colo_do_checkpoint_transaction (tx e) st") auto
  with transaction_mig_state [of "tx e" st] have "mig_state st1 = mig_state st" by simp
  with t show ?thesis by (cases r) (simp_all add: do_checkpoint_def)
qed

lemma colo_thread_iteration_mig_state:
  "mig_state (snd (colo_thread_iteration e t st)) = mig_state st"
  by (simp add: colo_thread_iteration_def Let_def do_checkpoint_mig_state emit_def)

lemma colo_thread_loop_mig_state:
  "mig_state (snd (colo_thread_loop es t st)) = mig_state st"
proof (induction es arbitrary: t st)
  case Nil
  show ?case by simp
next
  case (Cons e es)
  obtain r st1 where it: "colo_thread_iteration e t st = (r, st1)"
    by (cases "colo_thread_iteration e t st") auto
  with colo_thread_iteration_mig_state [of e t st] have m: "mig_state st1 = mig_state st" by simp
  show ?case
    using it m Cons.IH by (cases r) simp_all
qed

lemma wait_failover_completed_mig_state:
  "wait_failover_completed polls st = Some st' \<Longrightarrow>
     mig_state st' = mig_state st \<and> mig_file st' = mig_file st"
  by (auto dest!: wait_failover_completed_Some)

lemma failover_request_set_mig_state:
  "mig_state (failover_request_set st) = mig_state st \<and>
   mig_file (failover_request_set st) = mig_file st"
  by (simp add: failover_request_set_def qemu_bh_new_def qemu_bh_schedule_def Let_def)

lemma colo_thread_out_mig_state:
  "mig_state (snd (colo_thread_out polls c d st)) = mig_state st \<and>
   mig_file (snd (colo_thread_out polls c d st)) = mig_file st"
  by (auto simp add: colo_thread_out_def Let_def emit_def failover_request_set_mig_state
      failover_request_clear_def split: option.splits dest!: wait_failover_completed_mig_state)

lemma colo_thread_fields:
  "mig_state (snd (colo_thread e st)) = mig_state st \<and>
   (fst (colo_ctl_get (ctl_file st) COLO_READY) \<noteq> Returns 0 \<longrightarrow>
      mig_file (snd (colo_thread e st)) = mig_file st)"
proof -
  define out where "out = (\<lambda>c s. case colo_thread_out (completed_polls e) c (qdev_hotplug st) s of
                                  (r, st1) \<Rightarrow> (Some r, st1))"
  have o: "mig_state (snd (out c s)) = mig_state s \<and> mig_file (snd (out c s)) = mig_file s" for c s
    using colo_thread_out_mig_state [of "completed_polls e" c "qdev_hotplug st" s]
    by (cases "colo_thread_out (completed_polls e) c (qdev_hotplug st) s") (simp add: out_def)
  obtain r c ev where g: "colo_ctl_get (ctl_file st) COLO_READY = (r, c, ev)"
    by (cases "colo_ctl_get (ctl_file st) COLO_READY") auto
  define s3 where "s3 = emit ev ((emit [Proxy_init COLO_PRIMARY_MODE] st)\<lparr>qdev_hotplug := 0, ctl_file := c\<rparr>)"
  define s5 where "s5 = emit [Iothread_unlock] (vm_start (emit [Iothread_lock]
                          (s3\<lparr>colo_buffer := [], colo_buffer_null := False\<rparr>)))"
  obtain rl sl where l: "colo_thread_loop (iterations e) (clock_start e) s5 = (rl, sl)"
    by (cases "colo_thread_loop (iterations e) (clock_start e) s5") auto
  have m3: "mig_state s3 = mig_state st" "mig_file s3 = mig_file st"
    by (simp_all add: s3_def emit_def)
  have m5: "mig_state s5 = mig_state st"
    by (simp add: s5_def emit_def vm_start_def m3)
  from colo_thread_loop_mig_state [of "iterations e" "clock_start e" s5] l m5
  have ml: "mig_state sl = mig_state st" by simp
  have unf: "colo_thread e st =
      (if proxy_init_ret e \<noteq> 0 then
         out False (emit [Error_report ''Init colo proxy error''] (emit [Proxy_init COLO_PRIMARY_MODE] st))
       else if \<not> fopen_ok e then
         out False (emit [Error_report ''Open colo_control failed!''] (emit [Proxy_init COLO_PRIMARY_MODE] st))
       else
         (case r of
            Exits n \<Rightarrow> (Some (Exits n), s3)
          | Hangs \<Rightarrow> (Some Hangs, s3)
          | Returns ret \<Rightarrow>
              if ret < 0 then out True s3
              else if \<not> qsb_create_ok e then
                out True (emit [Error_report ''Failed to allocate colo buffer!'']
                            (s3\<lparr>colo_buffer_null := True\<rparr>))
              else
                (case rl of
                   Process_exits n \<Rightarrow> (Some (Exits n), sl)
                 | Never_returns \<Rightarrow> (Some Hangs, sl)
                 | Out_of_schedule \<Rightarrow> (None, sl)
                 | _ \<Rightarrow> out True sl)))"
    using g l
    by (cases r; cases rl)
      (simp_all add: colo_thread_def Let_def out_def s3_def s5_def emit_def vm_start_def)
  have a: "mig_state (snd (colo_thread e st)) = mig_state st"
    unfolding unf using o m3 ml
    by (cases r; cases rl) (simp_all add: emit_def)
  have b: "mig_file (snd (colo_thread e st)) = mig_file st" if "r \<noteq> Returns 0"
  proof -
    have "ret < 0" if "r = Returns ret" for ret
      using g that \<open>r \<noteq> Returns 0\<close>
      by (auto simp add: colo_ctl_get_def colo_ctl_get_value_def Let_def split: prod.splits if_splits)
    then show ?thesis
      unfolding unf using o m3 by (cases r) (auto simp add: emit_def)
  qed
  from a b g show ?thesis by simp
qed

lemma slave_do_failover_mig_state:
  "mig_state (snd (slave_do_failover e st)) = mig_state st"
proof -
  have w: "wait_vmstate_loading polls s = Some s' \<Longrightarrow> mig_state s' = mig_state s" for polls s s'
    by (induction polls arbitrary: s) (auto split: if_splits)
  show ?thesis
    by (auto simp add: slave_do_failover_def Let_def emit_def split: option.splits dest!: w)
qed

lemma master_do_failover_mig_state:
  "mig_state (master_do_failover st) =
     mig_state (migrate_set_state st MIGRATION_STATUS_COLO MIGRATION_STATUS_COMPLETED)"
  by (simp add: master_do_failover_def Let_def emit_def vm_start_def vm_stop_force_state_def
      migrate_set_state_def)

text \<open>
  C3, as the code has it. \<^verbatim>\<open>colo_start_checkpointer\<close> sets the status to \<open>COLO\<close> by
  compare-and-set from \<open>ACTIVE\<close> before it creates the checkpoint thread, and reads
  nothing from the control channel: the status is \<open>COLO\<close> before \<open>READY\<close> is received.
  The thread, which waits for \<open>READY\<close>, and the transaction never write the status, and
  the thread writes nothing to the data channel unless \<open>READY\<close> was received. The status
  is written again only by \<^verbatim>\<open>master_do_failover\<close>, as the compare-and-set from \<open>COLO\<close> to
  \<open>COMPLETED\<close>; \<^verbatim>\<open>colo_do_failover\<close> leaves it alone or does that.
\<close>

theorem migration_status_transitions:
  "mig_state (colo_start_checkpointer st) =
     (if mig_state st = MIGRATION_STATUS_ACTIVE then MIGRATION_STATUS_COLO else mig_state st) \<and>
   ctl_file (colo_start_checkpointer st) = ctl_file st \<and>
   trace (colo_start_checkpointer st) =
     trace st @ [Iothread_unlock, Thread_join, Iothread_lock, Thread_create_colo] \<and>
   mig_state (snd (colo_thread e st)) = mig_state st \<and>
   (fst (colo_ctl_get (ctl_file st) COLO_READY) \<noteq> Returns 0 \<longrightarrow>
      mig_file (snd (colo_thread e st)) = mig_file st) \<and>
   mig_state (snd (colo_do_checkpoint_transaction te st)) = mig_state st \<and>
   mig_state (master_do_failover st) =
     mig_state (migrate_set_state st MIGRATION_STATUS_COLO MIGRATION_STATUS_COMPLETED) \<and>
   mig_state (migrate_set_state st MIGRATION_STATUS_COLO MIGRATION_STATUS_COMPLETED) =
     (if mig_state st = MIGRATION_STATUS_COLO then MIGRATION_STATUS_COMPLETED else mig_state st) \<and>
   (mig_state (snd (colo_do_failover fe st)) = mig_state st \<or>
    mig_state (snd (colo_do_failover fe st)) =
      mig_state (migrate_set_state st MIGRATION_STATUS_COLO MIGRATION_STATUS_COMPLETED))"
proof -
  have a: "mig_state (colo_start_checkpointer st) =
     (if mig_state st = MIGRATION_STATUS_ACTIVE then MIGRATION_STATUS_COLO else mig_state st) \<and>
     ctl_file (colo_start_checkpointer st) = ctl_file st \<and>
     trace (colo_start_checkpointer st) =
       trace st @ [Iothread_unlock, Thread_join, Iothread_lock, Thread_create_colo]"
    by (simp add: colo_start_checkpointer_def Let_def emit_def migrate_set_state_def
        qemu_bh_delete_def split: option.splits)
  have d: "mig_state (snd (colo_do_failover fe st)) = mig_state st \<or>
    mig_state (snd (colo_do_failover fe st)) =
      mig_state (migrate_set_state st MIGRATION_STATUS_COLO MIGRATION_STATUS_COMPLETED)"
  proof -
    define s1 where "s1 = (if \<not> colo_runstate_is_stopped st then vm_stop_force_state st else st)"
    have m1: "mig_state s1 = mig_state st"
      by (simp add: s1_def vm_stop_force_state_def emit_def)
    obtain r s2 where sl: "slave_do_failover fe s1 = (r, s2)"
      by (cases "slave_do_failover fe s1") auto
    with slave_do_failover_mig_state [of fe s1] m1 have m2: "mig_state s2 = mig_state st" by simp
    have "mig_state (master_do_failover s1) =
      mig_state (migrate_set_state st MIGRATION_STATUS_COLO MIGRATION_STATUS_COMPLETED)"
      by (simp add: master_do_failover_mig_state migrate_set_state_def m1)
    with sl m2 show ?thesis
      by (cases r) (simp_all add: colo_do_failover_def Let_def s1_def [symmetric])
  qed
  from a d colo_thread_fields [of e st] transaction_mig_state [of te st]
    master_do_failover_mig_state [of st]
  show ?thesis by (simp add: migrate_set_state_def)
qed

theorem migration_status_transitions_witness:
  "mig_state (colo_start_checkpointer (initial_state [] [])) = MIGRATION_STATUS_COLO \<and>
   mig_file (snd (colo_thread calm_thread (colo_start_checkpointer (initial_state [] [])))) =
     fresh_file [] \<and>
   mig_state (snd (colo_thread calm_thread (colo_start_checkpointer (initial_state [] [])))) =
     MIGRATION_STATUS_COLO \<and>
   mig_state (master_do_failover (colo_start_checkpointer (initial_state [] []))) =
     MIGRATION_STATUS_COMPLETED"
proof -
  have a: "mig_state (initial_state [] []) = MIGRATION_STATUS_ACTIVE"
    "ctl_file (initial_state [] []) = fresh_file []"
    by (simp_all add: initial_state_def)
  have b: "fst (colo_ctl_get (fresh_file []) COLO_READY) \<noteq> Returns 0"
    by (simp add: codec_defs Let_def)
  have c: "mig_file (colo_start_checkpointer (initial_state [] [])) = fresh_file []"
    by (simp add: colo_start_checkpointer_def initial_state_def emit_def migrate_set_state_def Let_def)
  show ?thesis
    using migration_status_transitions [of "initial_state [] []"]
      migration_status_transitions [of "colo_start_checkpointer (initial_state [] [])" calm_thread]
    by (simp add: a b c)
qed

text \<open>
  C3 as stated fails: after \<^verbatim>\<open>colo_start_checkpointer\<close> the status is \<open>COLO\<close> although the
  Secondary has sent nothing, and the read of \<open>READY\<close> then fails.
\<close>

theorem migration_status_counterexample:
  "mig_state (colo_start_checkpointer (initial_state [] [])) = MIGRATION_STATUS_COLO \<and>
   rd (ctl_file (colo_start_checkpointer (initial_state [] []))) = [] \<and>
   fst (colo_ctl_get (ctl_file (colo_start_checkpointer (initial_state [] []))) COLO_READY) =
     Returns (- 1)"
  by (simp add: colo_start_checkpointer_def initial_state_def emit_def migrate_set_state_def
      codec_defs Let_def)

subsection \<open>The Secondary's round\<close>

lemma incoming_load_ok:
  assumes "incoming_load e st = (Next_iteration (), st')"
  shows "wr (ctl_file st') = wr (ctl_file st) @ pending (ctl_file st) @
           be64 COLO_CHECKPOINT_RECEIVED @ be64 COLO_CHECKPOINT_LOADED \<and>
         pending (ctl_file st') = [] \<and> mig_file st' = mig_file st \<and>
         colo_buffer st' = colo_buffer st"
proof -
  obtain ret1 c1 where p1: "colo_ctl_put (ctl_file st) COLO_CHECKPOINT_RECEIVED = (ret1, c1)"
    by (cases "colo_ctl_put (ctl_file st) COLO_CHECKPOINT_RECEIVED") auto
  obtain ret2 c2 where p2: "colo_ctl_put c1 COLO_CHECKPOINT_LOADED = (ret2, c2)"
    by (cases "colo_ctl_put c1 COLO_CHECKPOINT_LOADED") auto
  from assms p1 p2 have ok: "\<not> ret1 < 0" "\<not> ret2 < 0"
    and st': "ctl_file st' = c2" "mig_file st' = mig_file st" "colo_buffer st' = colo_buffer st"
    by (auto simp add: incoming_load_def Let_def emit_def vm_start_def split: if_splits)
  from colo_ctl_put_ok [OF p1 ok(1)] colo_ctl_put_ok [OF p2 ok(2)] st' show ?thesis by simp
qed

text \<open>The comparison of the count kept in an \<open>int\<close> with the length is exact below \<open>2^31\<close>.\<close>

lemma int_count_exact:
  assumes "n < 2 ^ 31"
  shows "(scast (of_nat n :: 32 word) :: u64) = tot \<longleftrightarrow> n = unat tot"
proof -
  have "signed_take_bit 31 (int n) = int n"
    using assms by (intro signed_take_bit_int_eq_self) simp_all
  then have c: "(scast (of_nat n :: 32 word) :: u64) = of_nat n"
    by (simp add: signed_of_nat)
  have "n < 2 ^ 64" using assms by (rule less_trans) simp
  then have u: "unat (of_nat n :: u64) = n"
    by (simp add: unat_of_nat)
  show ?thesis
  proof
    assume "(scast (of_nat n :: 32 word) :: u64) = tot"
    with c u show "n = unat tot" by auto
  next
    assume "n = unat tot"
    with c show "(scast (of_nat n :: 32 word) :: u64) = tot" by simp
  qed
qed

lemma incoming_receive_unfold:
  assumes "colo_ctl_get (mig_file st) COLO_CHECKPOINT_SEND = (r, f1, ev)"
    and "colo_ctl_get_value f1 0 = (ret2, f2, tot)"
    and "qsb_fill_buffer f2 tot = (n, bs, f3)"
  shows "incoming_receive e st =
     (case r of
        Exits k \<Rightarrow> (Process_exits k, emit ev (st\<lparr>mig_file := f1\<rparr>))
      | Hangs \<Rightarrow> (Never_returns, emit ev (st\<lparr>mig_file := f1\<rparr>))
      | Returns ret \<Rightarrow>
          if ret < 0 then (Goto_out, emit ev (st\<lparr>mig_file := f1\<rparr>))
          else if ret2 < 0 then (Goto_out, (emit ev (st\<lparr>mig_file := f1\<rparr>))\<lparr>mig_file := f2\<rparr>)
          else if (scast (of_nat n :: 32 word) :: u64) \<noteq> tot then
            (Goto_out, emit [Error_report ''can't get all migration data'']
               ((emit ev (st\<lparr>mig_file := f1\<rparr>))\<lparr>mig_file := f2, mig_file := f3, colo_buffer := bs\<rparr>))
          else incoming_load e
                 ((emit ev (st\<lparr>mig_file := f1\<rparr>))\<lparr>mig_file := f2, mig_file := f3, colo_buffer := bs\<rparr>))"
  using assms
  by (cases r) (simp_all add: incoming_receive_def Let_def emit_def)

lemma incoming_receive_ok:
  assumes "incoming_receive e st = (Next_iteration (), st')"
  shows "wr (ctl_file st') = wr (ctl_file st) @ pending (ctl_file st) @
           be64 COLO_CHECKPOINT_RECEIVED @ be64 COLO_CHECKPOINT_LOADED \<and>
         pending (ctl_file st') = []"
proof -
  obtain r f1 ev where g: "colo_ctl_get (mig_file st) COLO_CHECKPOINT_SEND = (r, f1, ev)"
    by (cases "colo_ctl_get (mig_file st) COLO_CHECKPOINT_SEND") auto
  obtain ret2 f2 tot where v: "colo_ctl_get_value f1 0 = (ret2, f2, tot)"
    by (cases "colo_ctl_get_value f1 0") auto
  obtain n bs f3 where q: "qsb_fill_buffer f2 tot = (n, bs, f3)"
    by (cases "qsb_fill_buffer f2 tot") auto
  define s where "s = (emit ev (st\<lparr>mig_file := f1\<rparr>))\<lparr>mig_file := f2, mig_file := f3, colo_buffer := bs\<rparr>"
  have c: "ctl_file s = ctl_file st" by (simp add: s_def emit_def)
  from assms have "incoming_load e s = (Next_iteration (), st')"
    unfolding incoming_receive_unfold [OF g v q] s_def
    by (cases r) (auto split: if_splits)
  from incoming_load_ok [OF this] c show ?thesis by simp
qed


lemma colo_incoming_round_unfold:
  assumes "colo_wait_handle_cmd (mig_file st) 0 = (Returns (ret, request), f, ev)"
    and "\<not> ret < 0"
  shows "colo_incoming_round e st =
     (let st1 = (emit ev (st\<lparr>mig_file := f\<rparr>))
                  \<lparr>failover_request := failover_request st \<or> failover_during_wait e\<rparr>;
          st2 = emit [Failover_checked (failover_request st1)] st1
      in if failover_request st1 then (Goto_out, emit [Error_report ''failover request''] st2)
         else
           let st3 = emit [Iothread_unlock] (vm_stop_force_state (emit [Iothread_lock] st2));
               p = colo_ctl_put (ctl_file st3) COLO_CHECKPOINT_SUSPENDED;
               st4 = st3\<lparr>ctl_file := snd p\<rparr>
           in if fst p < 0 then (Goto_out, st4)
              else if sec_proxy_checkpoint_ret e < 0 then (Goto_out, emit [Proxy_checkpoint] st4)
              else incoming_receive e (emit [Proxy_checkpoint] st4))"
proof -
  from assms have "request = 1 \<and> ret = 0"
    by (auto simp add: colo_wait_handle_cmd_def Let_def split: prod.splits if_splits)
  with assms show ?thesis
    by (simp add: colo_incoming_round_def Let_def failover_request_is_set_def split_beta)
qed


lemma colo_incoming_round_ok:
  assumes "colo_incoming_round e st = (Next_iteration (), st')"
  shows "wr (ctl_file st') = wr (ctl_file st) @ pending (ctl_file st) @ secondary_round_tokens \<and>
         pending (ctl_file st') = []"
proof -
  obtain r f ev where w: "colo_wait_handle_cmd (mig_file st) 0 = (r, f, ev)"
    by (cases "colo_wait_handle_cmd (mig_file st) 0") auto
  have nr: "\<exists>ret request. r = Returns (ret, request) \<and> \<not> ret < 0"
  proof (cases r)
    case (Returns x)
    obtain ret request where x: "x = (ret, request)" by (cases x)
    have "\<not> ret < 0"
    proof
      assume "ret < 0"
      with w Returns x have "fst (colo_incoming_round e st) = Goto_out"
        by (simp add: colo_incoming_round_def Let_def)
      with assms show False by simp
    qed
    with Returns x show ?thesis by simp
  next
    case (Exits n)
    with assms w show ?thesis by (simp add: colo_incoming_round_def)
  next
    case Hangs
    with assms w show ?thesis by (simp add: colo_incoming_round_def)
  qed
  then obtain ret request where r: "r = Returns (ret, request)" "\<not> ret < 0" by blast
  define st1 where "st1 = (emit ev (st\<lparr>mig_file := f\<rparr>))
                  \<lparr>failover_request := failover_request st \<or> failover_during_wait e\<rparr>"
  define st3 where "st3 = emit [Iothread_unlock] (vm_stop_force_state (emit [Iothread_lock]
                            (emit [Failover_checked (failover_request st1)] st1)))"
  obtain ret1 c1 where p1: "colo_ctl_put (ctl_file st3) COLO_CHECKPOINT_SUSPENDED = (ret1, c1)"
    by (cases "colo_ctl_put (ctl_file st3) COLO_CHECKPOINT_SUSPENDED") auto
  have c3: "ctl_file st3 = ctl_file st"
    by (simp add: st3_def st1_def emit_def vm_stop_force_state_def)
  note u = colo_incoming_round_unfold [OF w [unfolded r(1)] r(2), of e]
  from assms have ok: "\<not> ret1 < 0"
    and rc: "incoming_receive e (emit [Proxy_checkpoint] (st3\<lparr>ctl_file := c1\<rparr>)) = (Next_iteration (), st')"
    unfolding u Let_def st1_def [symmetric] st3_def [symmetric] p1 fst_conv snd_conv
    by (auto split: if_splits)
  from colo_ctl_put_ok [OF p1 ok] incoming_receive_ok [OF rc] c3 show ?thesis
    by (simp add: emit_def secondary_round_tokens_def)
qed


lemma incoming_load_in_schedule: "fst (incoming_load e st) \<noteq> Out_of_schedule"
  by (simp add: incoming_load_def Let_def split_beta)

lemma incoming_receive_in_schedule: "fst (incoming_receive e st) \<noteq> Out_of_schedule"
proof -
  obtain r f1 ev where g: "colo_ctl_get (mig_file st) COLO_CHECKPOINT_SEND = (r, f1, ev)"
    by (cases "colo_ctl_get (mig_file st) COLO_CHECKPOINT_SEND") auto
  obtain ret2 f2 tot where v: "colo_ctl_get_value f1 0 = (ret2, f2, tot)"
    by (cases "colo_ctl_get_value f1 0") auto
  obtain n bs f3 where q: "qsb_fill_buffer f2 tot = (n, bs, f3)"
    by (cases "qsb_fill_buffer f2 tot") auto
  show ?thesis
    unfolding incoming_receive_unfold [OF g v q]
    by (cases r) (simp_all add: incoming_load_in_schedule)
qed

lemma colo_incoming_round_in_schedule: "fst (colo_incoming_round e st) \<noteq> Out_of_schedule"
proof -
  obtain r f ev where w: "colo_wait_handle_cmd (mig_file st) 0 = (r, f, ev)"
    by (cases "colo_wait_handle_cmd (mig_file st) 0") auto
  show ?thesis
  proof (cases r)
    case (Returns x)
    obtain ret request where x: "x = (ret, request)" by (cases x)
    show ?thesis
    proof (cases "ret < 0")
      case True
      with w Returns x show ?thesis by (simp add: colo_incoming_round_def Let_def)
    next
      case False
      show ?thesis
        unfolding colo_incoming_round_unfold [OF w [unfolded Returns x] False]
        by (simp add: Let_def incoming_receive_in_schedule)
    qed
  next
    case (Exits n)
    with w show ?thesis by (simp add: colo_incoming_round_def)
  next
    case Hangs
    with w show ?thesis by (simp add: colo_incoming_round_def)
  qed
qed

lemma colo_incoming_loop_ok:
  "colo_incoming_loop es st = (Out_of_schedule, st') \<Longrightarrow>
     wr (ctl_file st') @ pending (ctl_file st') =
       wr (ctl_file st) @ pending (ctl_file st) @
       concat (replicate (length es) secondary_round_tokens)"
proof (induction es arbitrary: st)
  case Nil
  then show ?case by simp
next
  case (Cons e es)
  obtain r s1 where rd: "colo_incoming_round e st = (r, s1)"
    by (cases "colo_incoming_round e st") auto
  from Cons.prems rd colo_incoming_round_in_schedule [of e st] have r: "r = Next_iteration ()"
    by (cases r) simp_all
  from Cons.prems rd r have l: "colo_incoming_loop es s1 = (Out_of_schedule, st')"
    by simp
  from colo_incoming_round_ok [OF rd [unfolded r]]
  have "wr (ctl_file s1) @ pending (ctl_file s1) =
          wr (ctl_file st) @ pending (ctl_file st) @ secondary_round_tokens"
    by simp
  with Cons.IH [OF l] show ?case by simp
qed


lemma incoming_session_ok:
  assumes "colo_process_incoming_checkpoints e st = (None, st')"
  shows "wr (ctl_file st') @ pending (ctl_file st') =
           wr (ctl_file st) @ pending (ctl_file st) @ be64 COLO_READY @
           concat (replicate (length (rounds e)) secondary_round_tokens)"
proof -
  define out where "out = (\<lambda>c s. case colo_incoming_out (at_exit e) c (qdev_hotplug st) s of
                                  (r, st1) \<Rightarrow> (Some r, st1))"
  have o: "fst (out c s) \<noteq> None" for c s
    by (cases "colo_incoming_out (at_exit e) c (qdev_hotplug st) s") (simp add: out_def)
  define s3 where "s3 = (emit [Ram_cache_create] (emit [Proxy_init COLO_SECONDARY_MODE]
                          (st\<lparr>qdev_hotplug := 0, colo := True\<rparr>)))
                        \<lparr>colo_buffer := [], colo_buffer_null := False\<rparr>"
  have c3: "ctl_file s3 = ctl_file st" by (simp add: s3_def emit_def)
  obtain ret c where p: "colo_ctl_put (ctl_file s3) COLO_READY = (ret, c)"
    by (cases "colo_ctl_put (ctl_file s3) COLO_READY") auto
  define s5 where "s5 = emit [Iothread_unlock] (vm_start (emit [Iothread_lock] (s3\<lparr>ctl_file := c\<rparr>)))"
  have c5: "ctl_file s5 = c" by (simp add: s5_def emit_def vm_start_def)
  obtain rl sl where l: "colo_incoming_loop (rounds e) s5 = (rl, sl)"
    by (cases "colo_incoming_loop (rounds e) s5") auto
  have unf: "colo_process_incoming_checkpoints e st =
      (if sec_proxy_init_ret e \<noteq> 0 then
         out False (emit [Error_report (''Init colo proxy error'' @ [CHR 0x0A])]
                      (emit [Proxy_init COLO_SECONDARY_MODE] (st\<lparr>qdev_hotplug := 0, colo := True\<rparr>)))
       else if \<not> sec_fopen_ok e then
         out False (emit [Error_report ''Can't open incoming channel!'']
                      (emit [Proxy_init COLO_SECONDARY_MODE] (st\<lparr>qdev_hotplug := 0, colo := True\<rparr>)))
       else if \<not> sec_qsb_create_ok e then
         out True (emit [Error_report ''Failed to allocate colo buffer!'']
                     ((emit [Ram_cache_create] (emit [Proxy_init COLO_SECONDARY_MODE]
                          (st\<lparr>qdev_hotplug := 0, colo := True\<rparr>)))\<lparr>colo_buffer_null := True\<rparr>))
       else if ret < 0 then out True (s3\<lparr>ctl_file := c\<rparr>)
       else
         (case rl of
            Process_exits n \<Rightarrow> (Some (Exits n), sl)
          | Never_returns \<Rightarrow> (Some Hangs, sl)
          | Out_of_schedule \<Rightarrow> (None, sl)
          | _ \<Rightarrow> out True sl))"
    using p l
    by (cases rl)
      (simp_all add: colo_process_incoming_checkpoints_def Let_def out_def s3_def s5_def)
  from assms have k: "fst (colo_process_incoming_checkpoints e st) = None"
    "snd (colo_process_incoming_checkpoints e st) = st'"
    by simp_all
  from k(1) have ok: "\<not> ret < 0"
    unfolding unf by (simp add: o split: if_splits)
  from k(1) ok have rl: "rl = Out_of_schedule"
    unfolding unf by (cases rl) (simp_all add: o split: if_splits)
  from k ok rl have sl: "sl = st'"
    unfolding unf by (simp add: o split: if_splits)
  from colo_ctl_put_ok [OF p ok] colo_incoming_loop_ok [OF l [unfolded rl sl]] c3 c5
  show ?thesis by simp
qed


lemma do_checkpoint_in_schedule: "fst (do_checkpoint e st) \<noteq> Out_of_schedule"
  by (cases "colo_do_checkpoint_transaction (tx e) st";
      cases "fst (colo_do_checkpoint_transaction (tx e) st)")
    (simp_all add: do_checkpoint_def)

lemma colo_thread_iteration_in_schedule:
  "fst (colo_thread_iteration e t st) \<noteq> Out_of_schedule"
  by (simp add: colo_thread_iteration_def Let_def do_checkpoint_in_schedule)

lemma tx_finish_globals:
  assumes "tx_finish st = (Returns 0, st')"
  shows "colo_shutdown_requested st' = 0 \<and>
         colo_checkpoint_period st' = colo_checkpoint_period st"
  using assms
  by (auto simp add: tx_finish_def Let_def emit_def vm_start_def
      split: prod.splits outcome.splits if_splits)

lemma tx_send_globals:
  assumes "tx_send e st = (Returns 0, st')"
  shows "colo_shutdown_requested st' = 0 \<and>
         colo_checkpoint_period st' = colo_checkpoint_period st"
  using assms
  by (auto simp add: tx_send_def Let_def emit_def
      split: prod.splits if_splits dest!: tx_finish_globals)

lemma transaction_globals:
  assumes "colo_do_checkpoint_transaction e st = (Returns 0, st')" and "bufopen_ok e"
  shows "colo_shutdown_requested st' = 0 \<and>
         colo_checkpoint_period st' = colo_checkpoint_period st"
proof -
  obtain ret1 f1 where p1: "colo_ctl_put (mig_file st) COLO_CHECKPOINT_NEW = (ret1, f1)"
    by (cases "colo_ctl_put (mig_file st) COLO_CHECKPOINT_NEW") auto
  obtain r2 c2 ev2 where g2: "colo_ctl_get (ctl_file st) COLO_CHECKPOINT_SUSPENDED = (r2, c2, ev2)"
    by (cases "colo_ctl_get (ctl_file st) COLO_CHECKPOINT_SUSPENDED") auto
  define st3 where "st3 = (emit ev2 (st\<lparr>mig_file := f1, ctl_file := c2\<rparr>))\<lparr>colo_buffer := []\<rparr>"
  from assms p1 have n1: "\<not> ret1 < 0"
    by (auto simp add: colo_do_checkpoint_transaction_def)
  from assms p1 g2 n1 obtain ret2 where r2: "r2 = Returns ret2" "\<not> ret2 < 0"
    by (cases r2) (auto simp add: colo_do_checkpoint_transaction_def Let_def split: if_splits)
  from assms p1 g2 n1 r2 have unf: "tx_close_trans (tx_stop_vm e st3) = (Returns 0, st')"
    by (simp add: colo_do_checkpoint_transaction_def Let_def st3_def)
  obtain ss where ts: "tx_stop_vm e st3 = (Returns 0, ss)"
    and st': "st' = emit [Qemu_fclose ''trans''] ss"
    using unf by (cases "tx_stop_vm e st3"; cases "fst (tx_stop_vm e st3)")
      (auto simp add: tx_close_trans_def)
  from tx_send_globals [OF tx_stop_vm_ok [OF ts]] show ?thesis
    by (simp add: st' st3_def emit_def vm_stop_force_state_def)
qed

lemma do_checkpoint_Next:
  assumes "do_checkpoint e st = (Next_iteration t', st')"
  shows "t' = now_done e \<and> colo_do_checkpoint_transaction (tx e) st = (Returns 0, st')"
  using assms
  by (cases "colo_do_checkpoint_transaction (tx e) st";
      cases "fst (colo_do_checkpoint_transaction (tx e) st)")
    (auto simp add: do_checkpoint_def split: if_splits)

lemma colo_thread_iteration_Next:
  assumes "colo_thread_iteration e t st = (Next_iteration t', st')"
  shows "(compare_ret e = 0 \<and> now_trigger e - t < colo_checkpoint_period st \<and> t' = t \<and>
          mig_file st' = mig_file st \<and> ctl_file st' = ctl_file st \<and>
          colo_checkpoint_period st' = colo_checkpoint_period st \<and>
          colo_shutdown_requested st' = colo_shutdown_requested st) \<or>
         ((compare_ret e \<noteq> 0 \<or> colo_checkpoint_period st \<le> now_trigger e - t) \<and>
          t' = now_done e \<and>
          (\<exists>s. mig_file s = mig_file st \<and> ctl_file s = ctl_file st \<and>
               colo_checkpoint_period s = colo_checkpoint_period st \<and>
               colo_shutdown_requested s = colo_shutdown_requested st \<and>
               colo_do_checkpoint_transaction (tx e) s = (Returns 0, st')))"
proof -
  from assms have n: "\<not> failover_request_is_set st" "\<not> compare_ret e < 0"
    by (auto simp add: colo_thread_iteration_def Let_def split: if_splits)
  define st2 where "st2 = emit [Proxy_compare] (emit [Failover_checked False] st)"
  define st3 where "st3 = (if now_trigger e - t < CHECKPOINT_MIN_PERIOD
                        then emit [Usleep (1000 * (CHECKPOINT_MIN_PERIOD - (now_trigger e - t)))] st2
                        else st2)"
  have f2: "mig_file st2 = mig_file st" "ctl_file st2 = ctl_file st"
    "colo_checkpoint_period st2 = colo_checkpoint_period st"
    "colo_shutdown_requested st2 = colo_shutdown_requested st"
    by (simp_all add: st2_def emit_def)
  have f3: "mig_file st3 = mig_file st" "ctl_file st3 = ctl_file st"
    "colo_checkpoint_period st3 = colo_checkpoint_period st"
    "colo_shutdown_requested st3 = colo_shutdown_requested st"
    by (simp_all add: st3_def f2 emit_def)
  have unf: "colo_thread_iteration e t st =
      (if compare_ret e \<noteq> 0 then do_checkpoint e st3
       else if now_trigger e - t < colo_checkpoint_period st
       then (Next_iteration t, emit [Usleep 100000] st2)
       else do_checkpoint e st2)"
    using n by (simp add: colo_thread_iteration_def Let_def st2_def st3_def emit_def)
  show ?thesis
  proof (cases "compare_ret e \<noteq> 0")
    case True
    with assms unf have "do_checkpoint e st3 = (Next_iteration t', st')" by simp
    from do_checkpoint_Next [OF this] f3 True
    have "(compare_ret e \<noteq> 0 \<or> colo_checkpoint_period st \<le> now_trigger e - t) \<and>
          t' = now_done e \<and>
          (mig_file st3 = mig_file st \<and> ctl_file st3 = ctl_file st \<and>
           colo_checkpoint_period st3 = colo_checkpoint_period st \<and>
           colo_shutdown_requested st3 = colo_shutdown_requested st \<and>
           colo_do_checkpoint_transaction (tx e) st3 = (Returns 0, st'))"
      by simp
    then show ?thesis by (intro disjI2) (elim conjE, intro conjI exI [of _ st3]; assumption)
  next
    case z: False
    show ?thesis
    proof (cases "now_trigger e - t < colo_checkpoint_period st")
      case True
      with assms unf z have "t' = t" "st' = emit [Usleep 100000] st2" by simp_all
      with f2 z True show ?thesis by (simp add: emit_def)
    next
      case False
      with assms unf z have "do_checkpoint e st2 = (Next_iteration t', st')" by simp
      from do_checkpoint_Next [OF this] f2 False
      have "(compare_ret e \<noteq> 0 \<or> colo_checkpoint_period st \<le> now_trigger e - t) \<and>
          t' = now_done e \<and>
          (mig_file st2 = mig_file st \<and> ctl_file st2 = ctl_file st \<and>
           colo_checkpoint_period st2 = colo_checkpoint_period st \<and>
           colo_shutdown_requested st2 = colo_shutdown_requested st \<and>
           colo_do_checkpoint_transaction (tx e) st2 = (Returns 0, st'))"
        by (simp add: not_less)
      then show ?thesis by (intro disjI2) (elim conjE, intro conjI exI [of _ st2]; assumption)
    qed
  qed
qed

text \<open>
  What the Primary's loop has put on the data channel and read from the control channel
  when it is still running after the scheduled passes, each of which could open its view
  of the buffer: one round for each pass in which a checkpoint was due, carrying what the
  serializer wrote in that pass.
\<close>

lemma colo_thread_loop_rounds:
  "colo_thread_loop es t st = (Out_of_schedule, st') \<Longrightarrow> \<forall>e \<in> set es. bufopen_ok (tx e) \<Longrightarrow>
     \<exists>shutdown. (shutdown \<longrightarrow> colo_shutdown_requested st \<noteq> 0) \<and>
        wr (mig_file st') @ pending (mig_file st') =
          wr (mig_file st) @ pending (mig_file st) @
          primary_rounds shutdown
            (map (\<lambda>e. vmstate_begin (tx e) @ vmstate_complete (tx e))
               (checkpoint_passes (colo_checkpoint_period st) t es)) \<and>
        control_rounds (length (checkpoint_passes (colo_checkpoint_period st) t es))
          (rd (ctl_file st)) \<and>
        rd (ctl_file st') =
          drop (24 * length (checkpoint_passes (colo_checkpoint_period st) t es)) (rd (ctl_file st))"
proof (induction es arbitrary: t st)
  case Nil
  then have "st' = st" by (simp split: if_splits)
  then show ?case by (intro exI [of _ False]) simp
next
  case (Cons e es)
  obtain r s1 where it: "colo_thread_iteration e t st = (r, s1)"
    by (cases "colo_thread_iteration e t st") auto
  from Cons.prems(1) have c: "mig_state st = MIGRATION_STATUS_COLO"
    by (simp split: if_splits)
  from Cons.prems(1) it c colo_thread_iteration_in_schedule [of e t st]
  obtain t1 where r: "r = Next_iteration t1"
    by (cases r) simp_all
  from Cons.prems(1) it c r have l: "colo_thread_loop es t1 s1 = (Out_of_schedule, st')"
    by simp
  from Cons.prems(2) have b: "bufopen_ok (tx e)" "\<forall>e \<in> set es. bufopen_ok (tx e)" by simp_all
  from Cons.IH [OF l b(2)] obtain sd where
    ih: "sd \<longrightarrow> colo_shutdown_requested s1 \<noteq> 0"
      "wr (mig_file st') @ pending (mig_file st') =
          wr (mig_file s1) @ pending (mig_file s1) @
          primary_rounds sd
            (map (\<lambda>e. vmstate_begin (tx e) @ vmstate_complete (tx e))
               (checkpoint_passes (colo_checkpoint_period s1) t1 es))"
      "control_rounds (length (checkpoint_passes (colo_checkpoint_period s1) t1 es))
          (rd (ctl_file s1))"
      "rd (ctl_file st') =
          drop (24 * length (checkpoint_passes (colo_checkpoint_period s1) t1 es)) (rd (ctl_file s1))"
    by blast
  from colo_thread_iteration_Next [OF it [unfolded r]]
  show ?case
  proof
    assume a: "compare_ret e = 0 \<and> now_trigger e - t < colo_checkpoint_period st \<and> t1 = t \<and>
          mig_file s1 = mig_file st \<and> ctl_file s1 = ctl_file st \<and>
          colo_checkpoint_period s1 = colo_checkpoint_period st \<and>
          colo_shutdown_requested s1 = colo_shutdown_requested st"
    then have cp: "checkpoint_passes (colo_checkpoint_period st) t (e # es) =
                 checkpoint_passes (colo_checkpoint_period s1) t1 es"
      by simp
    from a have e: "mig_file s1 = mig_file st" "ctl_file s1 = ctl_file st"
      "colo_shutdown_requested s1 = colo_shutdown_requested st"
      by simp_all
    from ih show ?thesis unfolding cp e by (intro exI [of _ sd]) simp
  next
    assume a: "(compare_ret e \<noteq> 0 \<or> colo_checkpoint_period st \<le> now_trigger e - t) \<and>
          t1 = now_done e \<and>
          (\<exists>s. mig_file s = mig_file st \<and> ctl_file s = ctl_file st \<and>
               colo_checkpoint_period s = colo_checkpoint_period st \<and>
               colo_shutdown_requested s = colo_shutdown_requested st \<and>
               colo_do_checkpoint_transaction (tx e) s = (Returns 0, s1))"
    then obtain s where s: "mig_file s = mig_file st" "ctl_file s = ctl_file st"
      "colo_checkpoint_period s = colo_checkpoint_period st"
      "colo_shutdown_requested s = colo_shutdown_requested st"
      "colo_do_checkpoint_transaction (tx e) s = (Returns 0, s1)"
      by blast
    from a have cp: "checkpoint_passes (colo_checkpoint_period st) t (e # es) =
                 e # checkpoint_passes (colo_checkpoint_period st) t1 es"
      by simp
    from transaction_globals [OF s(5) b(1)] s(3)
    have g: "colo_shutdown_requested s1 = 0" "colo_checkpoint_period s1 = colo_checkpoint_period st"
      by simp_all
    from ih(1) g(1) have sd: "\<not> sd" by simp
    note k = transaction_ok [OF s(5) b(1)]
    from k obtain tail where
      p: "pending (mig_file s1) = []" and
      cb: "colo_buffer s1 = vmstate_begin (tx e) @ vmstate_complete (tx e)" and
      w: "wr (mig_file s1) =
            wr (mig_file s) @ pending (mig_file s) @ be64 COLO_CHECKPOINT_NEW @
            be64 COLO_CHECKPOINT_SEND @ be64 (of_nat (length (colo_buffer s1))) @
            colo_buffer s1 @ tail" and
      tl: "tail = [] \<or> tail = be64 COLO_GUEST_SHUTDOWN \<and> colo_shutdown_requested s \<noteq> 0"
      by blast
    from tl have "tail = (if tail \<noteq> [] then be64 COLO_GUEST_SHUTDOWN else [])" by auto
    with w cb s have w1: "wr (mig_file s1) =
             wr (mig_file st) @ pending (mig_file st) @
             primary_round_tokens (vmstate_begin (tx e) @ vmstate_complete (tx e)) (tail \<noteq> [])"
      by (simp add: primary_round_tokens_def)
    from tl s(4) have t1: "tail \<noteq> [] \<longrightarrow> colo_shutdown_requested st \<noteq> 0" by auto
    from ih(2) w1 p sd g(2)
    have 1: "wr (mig_file st') @ pending (mig_file st') =
          wr (mig_file st) @ pending (mig_file st) @
          primary_rounds (tail \<noteq> [])
            (map (\<lambda>e. vmstate_begin (tx e) @ vmstate_complete (tx e))
               (checkpoint_passes (colo_checkpoint_period st) t (e # es)))"
      unfolding cp by simp
    from k s(2) ih(3) g(2)
    have 2: "control_rounds (length (checkpoint_passes (colo_checkpoint_period st) t (e # es)))
          (rd (ctl_file st))"
      unfolding cp by simp
    from k s(2) ih(4) g(2)
    have 3: "rd (ctl_file st') =
          drop (24 * length (checkpoint_passes (colo_checkpoint_period st) t (e # es)))
            (rd (ctl_file st))"
      unfolding cp by (simp add: add.commute)
    from t1 1 2 3 show ?thesis by (intro exI [of _ "tail \<noteq> []"] conjI)
  qed
qed

text \<open>
  Below \<open>2^31\<close> bytes the check of the count is exact: a count that differs from the
  announced length sends the round to the label \<^verbatim>\<open>out\<close> with nothing written to the
  control channel, and an equal count goes on with exactly the announced bytes in the
  buffer.
\<close>

lemma incoming_receive_count:
  assumes "colo_ctl_get (mig_file st) COLO_CHECKPOINT_SEND = (Returns 0, f1, ev)"
    and "colo_ctl_get_value f1 0 = (0, f2, tot)"
    and "length (take (unat tot) (rd f2)) < 2 ^ 31"
  shows "(length (take (unat tot) (rd f2)) \<noteq> unat tot \<longrightarrow>
            fst (incoming_receive e st) = Goto_out \<and>
            ctl_file (snd (incoming_receive e st)) = ctl_file st \<and>
            trace (snd (incoming_receive e st)) =
              trace st @ [Error_report ''can't get all migration data'']) \<and>
         (length (take (unat tot) (rd f2)) = unat tot \<longrightarrow>
            (\<exists>s. incoming_receive e st = incoming_load e s \<and>
                 colo_buffer s = take (unat tot) (rd f2) \<and> ctl_file s = ctl_file st))"
proof -
  obtain n bs f3 where q: "qsb_fill_buffer f2 tot = (n, bs, f3)"
    by (cases "qsb_fill_buffer f2 tot") auto
  then have n: "n = length (take (unat tot) (rd f2))" "bs = take (unat tot) (rd f2)"
    by (auto simp add: qsb_fill_buffer_def Let_def)
  from colo_ctl_get_ev [OF assms(1)] assms(1) have ev: "ev = []"
    by (auto simp add: colo_ctl_get_def Let_def split: prod.splits if_splits)
  note u = incoming_receive_unfold [OF assms(1) assms(2) q, of e]
  from assms(3) n have "n < 2 ^ 31" by simp
  from int_count_exact [OF this, of tot]
  have x: "(scast (of_nat n :: 32 word) :: u64) = tot \<longleftrightarrow> n = unat tot" .
  have main: "(n \<noteq> unat tot \<longrightarrow>
            fst (incoming_receive e st) = Goto_out \<and>
            ctl_file (snd (incoming_receive e st)) = ctl_file st \<and>
            trace (snd (incoming_receive e st)) =
              trace st @ [Error_report ''can't get all migration data'']) \<and>
         (n = unat tot \<longrightarrow>
            (\<exists>s. incoming_receive e st = incoming_load e s \<and>
                 colo_buffer s = bs \<and> ctl_file s = ctl_file st))"
  proof (cases "n = unat tot")
    case True
    with x u have "incoming_receive e st = incoming_load e
        ((emit ev (st\<lparr>mig_file := f1\<rparr>))\<lparr>mig_file := f2, mig_file := f3, colo_buffer := bs\<rparr>)"
      by simp
    moreover have "colo_buffer ((emit ev (st\<lparr>mig_file := f1\<rparr>))\<lparr>mig_file := f2, mig_file := f3, colo_buffer := bs\<rparr>) = bs"
      "ctl_file ((emit ev (st\<lparr>mig_file := f1\<rparr>))\<lparr>mig_file := f2, mig_file := f3, colo_buffer := bs\<rparr>) = ctl_file st"
      by (simp_all add: emit_def)
    ultimately have "\<exists>s. incoming_receive e st = incoming_load e s \<and>
                 colo_buffer s = bs \<and> ctl_file s = ctl_file st"
      by blast
    with True show ?thesis by simp
  next
    case False
    with x u have "incoming_receive e st = (Goto_out, emit [Error_report ''can't get all migration data'']
               ((emit ev (st\<lparr>mig_file := f1\<rparr>))\<lparr>mig_file := f2, mig_file := f3, colo_buffer := bs\<rparr>))"
      by simp
    with False ev show ?thesis by (simp add: emit_def)
  qed
  from main show ?thesis unfolding n .
qed

lemmas secondary_defs = incoming_receive_def incoming_load_def colo_incoming_round_def
  qsb_fill_buffer_def calm_round_def

text \<open>
  C6 does not hold for every round. The count of bytes is kept in an \<^verbatim>\<open>int\<close> and compared
  with the \<^verbatim>\<open>uint64_t\<close> length: when the peer announces \<open>2^64 - 1\<close> bytes and closes
  after \<open>2^32 - 1\<close>, the count becomes -1, equals the length after conversion, and the
  round goes on: \<^verbatim>\<open>COLO_CHECKPOINT_RECEIVED\<close> and \<^verbatim>\<open>COLO_CHECKPOINT_LOADED\<close> are sent
  although the bytes obtained are fewer than announced.
\<close>

theorem incoming_receive_count_truncated:
  "fst (incoming_receive calm_round
          (initial_state (be64 COLO_CHECKPOINT_SEND @ be64 18446744073709551615 @ replicate 4294967295 0) [])) =
     Next_iteration () \<and>
   wr (ctl_file (snd (incoming_receive calm_round
          (initial_state (be64 COLO_CHECKPOINT_SEND @ be64 18446744073709551615 @ replicate 4294967295 0) [])))) =
     be64 COLO_CHECKPOINT_RECEIVED @ be64 COLO_CHECKPOINT_LOADED \<and>
   colo_buffer (snd (incoming_receive calm_round
          (initial_state (be64 COLO_CHECKPOINT_SEND @ be64 18446744073709551615 @ replicate 4294967295 0) []))) =
     replicate 4294967295 0 \<and>
   unat (18446744073709551615 :: u64) = 18446744073709551615"
  by (simp add: secondary_defs state_defs codec_defs token_defs Let_def)

subsection \<open>The order of the tokens\<close>

lemmas loop_defs = colo_thread_iteration_def do_checkpoint_def calm_iter_def
  CHECKPOINT_MIN_PERIOD_def CHECKPOINT_MAX_PEROID_def
lemmas incoming_defs = colo_process_incoming_checkpoints_def calm_incoming_def calm_exit_def

text \<open>
  A session in which nothing fails: one transaction, two passes of the Primary's loop
  (the second one with a checkpoint due), and a Secondary session of one round.
\<close>

lemma calm_session_tokens:
  "wr (mig_file (snd (colo_do_checkpoint_transaction calm_tx
        (initial_state [] (be64 COLO_CHECKPOINT_SUSPENDED @ be64 COLO_CHECKPOINT_RECEIVED @
                            be64 COLO_CHECKPOINT_LOADED))))) =
     be64 COLO_CHECKPOINT_NEW @ be64 COLO_CHECKPOINT_SEND @ be64 3 @ [1, 2, 3] \<and>
   wr (mig_file (snd (colo_thread_loop [calm_iter, calm_iter\<lparr>now_trigger := 10000\<rparr>] 0
        ((initial_state [] (be64 COLO_CHECKPOINT_SUSPENDED @ be64 COLO_CHECKPOINT_RECEIVED @
                             be64 COLO_CHECKPOINT_LOADED))\<lparr>mig_state := MIGRATION_STATUS_COLO\<rparr>)))) =
     primary_round_tokens [1, 2, 3] False \<and>
   wr (ctl_file (snd (colo_process_incoming_checkpoints calm_incoming
        (initial_state (be64 COLO_CHECKPOINT_NEW @ be64 COLO_CHECKPOINT_SEND @ be64 3 @ [1, 2, 3])
           [])))) =
     be64 COLO_READY @ secondary_round_tokens"
proof -
  define ctl where "ctl = be64 COLO_CHECKPOINT_SUSPENDED @ be64 COLO_CHECKPOINT_RECEIVED @
                          be64 COLO_CHECKPOINT_LOADED"
  define p0 where "p0 = initial_state [] ctl"
  define p1 where "p1 = p0\<lparr>mig_state := MIGRATION_STATUS_COLO\<rparr>"
  define s0 where "s0 = initial_state (be64 COLO_CHECKPOINT_NEW @ be64 COLO_CHECKPOINT_SEND @
                                        be64 3 @ [1, 2, 3]) []"
  obtain st1 where a: "colo_do_checkpoint_transaction calm_tx p0 = (Returns 0, st1)"
    by (simp add: tx_defs state_defs codec_defs token_defs Let_def p0_def ctl_def)
  obtain st2 where b: "colo_thread_loop [calm_iter, calm_iter\<lparr>now_trigger := 10000\<rparr>] 0 p1 =
       (Out_of_schedule, st2)"
    by (simp add: loop_defs tx_defs state_defs codec_defs token_defs Let_def p1_def p0_def ctl_def)
  obtain st3 where c: "colo_process_incoming_checkpoints calm_incoming s0 = (None, st3)"
    by (simp add: incoming_defs secondary_defs colo_wait_handle_cmd_def state_defs codec_defs
        token_defs Let_def s0_def)
  have z: "wr (mig_file p0) = []" "pending (mig_file p0) = []" "wr (ctl_file s0) = []"
    "pending (ctl_file s0) = []" "bufopen_ok calm_tx"
    "wr (mig_file p1) = []" "pending (mig_file p1) = []"
    "\<forall>x \<in> set [calm_iter, calm_iter\<lparr>now_trigger := 10000\<rparr>]. bufopen_ok (tx x)"
    "length (rounds calm_incoming) = 1" "colo_shutdown_requested p0 = 0"
    "colo_shutdown_requested p1 = 0" "vmstate_begin calm_tx @ vmstate_complete calm_tx = [1, 2, 3]"
    "checkpoint_passes (colo_checkpoint_period p1) 0 [calm_iter, calm_iter\<lparr>now_trigger := 10000\<rparr>] =
       [calm_iter\<lparr>now_trigger := 10000\<rparr>]"
    "tx (calm_iter\<lparr>now_trigger := 10000\<rparr>) = calm_tx"
    by (simp_all add: p1_def p0_def s0_def initial_state_def fresh_file_def calm_tx_def calm_iter_def
        calm_incoming_def CHECKPOINT_MAX_PEROID_def)
  from transaction_ok [OF a z(5)] z
  have 1: "wr (mig_file st1) = be64 COLO_CHECKPOINT_NEW @ be64 COLO_CHECKPOINT_SEND @ be64 3 @ [1, 2, 3]"
    by auto
  from transaction_ok [OF a z(5)] have pe: "pending (mig_file st1) = []" by simp
  from colo_thread_loop_rounds [OF b z(8)] z
  have 2: "wr (mig_file st2) @ pending (mig_file st2) = primary_round_tokens [1, 2, 3] False"
    by auto
  have "pending (mig_file st2) = []"
    using b by (auto simp add: loop_defs tx_defs state_defs codec_defs token_defs Let_def p1_def p0_def ctl_def)
  with 2 have 2: "wr (mig_file st2) = primary_round_tokens [1, 2, 3] False" by simp
  have "pending (ctl_file st3) = []"
    using c by (auto simp add: incoming_defs secondary_defs colo_wait_handle_cmd_def state_defs codec_defs
        token_defs Let_def s0_def)
  with incoming_session_ok [OF c] z
  have 3: "wr (ctl_file st3) = be64 COLO_READY @ secondary_round_tokens" by simp
  from 1 2 3 a b c show ?thesis
    by (simp add: p1_def [symmetric] p0_def [symmetric] ctl_def [symmetric] s0_def [symmetric])
qed

text \<open>
  A transaction that cannot open its view of the buffer (line 575) reports the error and
  leaves through \<^verbatim>\<open>out\<close> with \<^verbatim>\<open>ret\<close> as the read of \<^verbatim>\<open>COLO_CHECKPOINT_SUSPENDED\<close> left it.
\<close>

lemma transaction_bufopen_failure:
  assumes "colo_ctl_put (mig_file st) COLO_CHECKPOINT_NEW = (0, f)"
    and "colo_ctl_get (ctl_file st) COLO_CHECKPOINT_SUSPENDED = (Returns 0, c, ev)"
    and "\<not> bufopen_ok e"
  shows "colo_do_checkpoint_transaction e st =
           (Returns 0, emit [Error_report ''Open colo buffer for write failed'']
                         ((emit ev (st\<lparr>mig_file := f, ctl_file := c\<rparr>))\<lparr>colo_buffer := []\<rparr>)) \<and>
         wr f = wr (mig_file st) @ pending (mig_file st) @ be64 COLO_CHECKPOINT_NEW"
  using assms colo_ctl_put_ok [OF assms(1)]
  by (simp add: colo_do_checkpoint_transaction_def Let_def)

text \<open>
  C1 does not hold on the code. When \<^verbatim>\<open>qemu_bufopen\<close> gives no view of the buffer, the
  transaction returns 0, as a successful round does, having sent only
  \<^verbatim>\<open>COLO_CHECKPOINT_NEW\<close>: \<^verbatim>\<open>ret\<close> is not set on this way to \<^verbatim>\<open>out\<close>, as it is on the
  others. The loop takes the round for a successful one and goes on; with a second pass
  in which nothing fails the data channel carries \<^verbatim>\<open>COLO_CHECKPOINT_NEW\<close>,
  \<^verbatim>\<open>COLO_CHECKPOINT_NEW\<close>, \<^verbatim>\<open>COLO_CHECKPOINT_SEND\<close>, the length and the payload, and the
  loop is still running.
\<close>

theorem token_ordering_bufopen_failure:
  "fst (colo_do_checkpoint_transaction (calm_tx\<lparr>bufopen_ok := False\<rparr>)
          (initial_state [] (be64 COLO_CHECKPOINT_SUSPENDED))) = Returns 0 \<and>
   wr (mig_file (snd (colo_do_checkpoint_transaction (calm_tx\<lparr>bufopen_ok := False\<rparr>)
          (initial_state [] (be64 COLO_CHECKPOINT_SUSPENDED))))) = be64 COLO_CHECKPOINT_NEW \<and>
   trace (snd (colo_do_checkpoint_transaction (calm_tx\<lparr>bufopen_ok := False\<rparr>)
          (initial_state [] (be64 COLO_CHECKPOINT_SUSPENDED)))) =
     [Error_report ''Open colo buffer for write failed''] \<and>
   fst (colo_thread_loop
          [calm_iter\<lparr>compare_ret := 1, tx := calm_tx\<lparr>bufopen_ok := False\<rparr>\<rparr>,
           calm_iter\<lparr>compare_ret := 1, now_trigger := 200, now_done := 210\<rparr>] 0
          ((initial_state []
              (be64 COLO_CHECKPOINT_SUSPENDED @ be64 COLO_CHECKPOINT_SUSPENDED @
               be64 COLO_CHECKPOINT_RECEIVED @ be64 COLO_CHECKPOINT_LOADED))
           \<lparr>mig_state := MIGRATION_STATUS_COLO\<rparr>)) = Out_of_schedule \<and>
   wr (mig_file (snd (colo_thread_loop
          [calm_iter\<lparr>compare_ret := 1, tx := calm_tx\<lparr>bufopen_ok := False\<rparr>\<rparr>,
           calm_iter\<lparr>compare_ret := 1, now_trigger := 200, now_done := 210\<rparr>] 0
          ((initial_state []
              (be64 COLO_CHECKPOINT_SUSPENDED @ be64 COLO_CHECKPOINT_SUSPENDED @
               be64 COLO_CHECKPOINT_RECEIVED @ be64 COLO_CHECKPOINT_LOADED))
           \<lparr>mig_state := MIGRATION_STATUS_COLO\<rparr>)))) =
     be64 COLO_CHECKPOINT_NEW @ be64 COLO_CHECKPOINT_NEW @ be64 COLO_CHECKPOINT_SEND @
     be64 3 @ [1, 2, 3]"
  by (simp add: loop_defs tx_defs state_defs codec_defs token_defs Let_def)

end
